theory Spec2Isabelle
  imports Complex_Main
begin

section \<open>Values and strings of the match screen\<close>

text \<open>
  The match screen (GameScreen) is a React component: its state is a set of state
  variables, and each handler or effect is modelled as a function from the state of the
  last render to the state after the updates it queues. What a handler awaits (a network
  call) splits it into the part before and the part after the call.

  The screen receives JSON payloads whose fields are dynamically typed. A field is
  modelled by the cases the code distinguishes: absent, null, boolean, number, string,
  anything else (an object or an array). Numbers are the integers: every comparison the
  modelled code makes on them is against a slot (1 or 2) or another such number. An
  object or array carries what \<open>Number\<close> makes of it when that is such a number (2 for
  the array [2]) and \<open>None\<close> when it is NaN (every plain object). A string is a sequence
  of character codes below 256.
\<close>

datatype jsval =
  JUndefined | JNull | JBool bool | JNum int | JStr string | JOther "int option"

text \<open>JavaScript truthiness, as used by \<open>Boolean(v)\<close>, \<open>!v\<close> and \<open>v && ...\<close>.\<close>

fun truthy :: "jsval \<Rightarrow> bool" where
  "truthy JUndefined = False"
| "truthy JNull = False"
| "truthy (JBool b) = b"
| "truthy (JNum n) = (n \<noteq> 0)"
| "truthy (JStr s) = (s \<noteq> [])"
| "truthy (JOther n) = True"

text \<open>\<open>a ?? b\<close>: the right operand only when the left one is undefined or null.\<close>

fun nullish :: "jsval \<Rightarrow> jsval \<Rightarrow> jsval" where
  "nullish JUndefined b = b"
| "nullish JNull b = b"
| "nullish a b = a"

text \<open>A nullable string state variable is truthy when it is a non-empty string.\<close>

fun truthyStr :: "string option \<Rightarrow> bool" where
  "truthyStr None = False"
| "truthyStr (Some s) = (s \<noteq> [])"

text \<open>
  \<open>toLowerCase\<close>, \<open>includes\<close> (here \<open>includesStr\<close>) and \<open>trim\<close> of JavaScript strings, on
  codes below 256: the capital letters are the codes 65 to 90 and 192 to 222 without 215,
  the white space is the codes 9 to 13, 32 and 160.
\<close>

definition lowerChar :: "char \<Rightarrow> char" where
  \<comment> \<open>adding 32 to the code of a capital letter sets its bit 5\<close>
  "lowerChar c =
     (let n = (of_char c :: nat)
      in if (65 \<le> n \<and> n \<le> 90) \<or> (192 \<le> n \<and> n \<le> 222 \<and> n \<noteq> 215)
         then Char (digit0 c) (digit1 c) (digit2 c) (digit3 c) (digit4 c) True (digit6 c) (digit7 c)
         else c)"

definition toLowerCase :: "string \<Rightarrow> string" where
  "toLowerCase s = map lowerChar s"

fun startsWith :: "string \<Rightarrow> string \<Rightarrow> bool" where
  "startsWith s [] = True"
| "startsWith [] (d # ds) = False"
| "startsWith (c # cs) (d # ds) = (c = d \<and> startsWith cs ds)"

fun includesStr :: "string \<Rightarrow> string \<Rightarrow> bool" where
  "includesStr [] sub = (sub = [])"
| "includesStr (c # cs) sub = (startsWith (c # cs) sub \<or> includesStr cs sub)"

definition isSpace :: "char \<Rightarrow> bool" where
  "isSpace c = ((of_char c :: nat) \<in> {9, 10, 11, 12, 13, 32, 160})"

definition trim :: "string \<Rightarrow> string" where
  "trim s = rev (dropWhile isSpace (rev (dropWhile isSpace s)))"

section \<open>Data model\<close>

text \<open>
  \<open>type AttackCell = { row: number; col: number; sunk?: boolean }\<close>. An absent
  \<open>sunk\<close> is \<open>False\<close>: the code only ever tests the flag for truth.
\<close>

record AttackCell =
  row :: int
  col :: int
  sunk :: bool

record AttackHistory =
  hits :: "AttackCell list"
  misses :: "AttackCell list"

record PlayerCombatSnapshot =
  uuid :: "string option"
  name :: "string option"
  boardSubmitted :: bool
  snapHits :: "AttackCell list"
  snapMisses :: "AttackCell list"
  snapSunk :: "AttackCell list"

text \<open>
  One player's entry of \<open>payload.players\<close>, as \<open>mapSnapshot\<close> reads it. The three cell
  lists are the results of \<open>normalizeCells\<close> on \<open>data.hits\<close>, \<open>data.misses\<close> and
  \<open>data.sunk ?? data.sinks ?? data.sank\<close>.
\<close>

record PlayerData =
  dUuid :: jsval
  dName :: jsval
  dBoardSubmitted :: jsval
  dHits :: "AttackCell list"
  dMisses :: "AttackCell list"
  dSunk :: "AttackCell list"

text \<open>
  One element of \<open>payload.events\<close>. \<open>evX\<close> and \<open>evY\<close> hold \<open>Number(event.x)\<close> and
  \<open>Number(event.y)\<close> when the field is neither null nor undefined and the number is
  finite; \<open>None\<close> covers the inputs for which \<open>toCell\<close> returns null on that field.
\<close>

record Event =
  evType :: jsval
  evPlayer :: jsval
  evX :: "int option"
  evY :: "int option"
  evResult :: jsval
  evSunk :: jsval
  evHitCode :: jsval

text \<open>
  A (non-null) payload handed to \<open>applyGameStateUpdate\<close>: \<open>players1\<close> and \<open>players2\<close>
  are \<open>players['1'] ?? players[1]\<close> and \<open>players['2'] ?? players[2]\<close> (\<open>None\<close> when
  absent), \<open>events\<close> is \<open>payload.events\<close> when it is an array and empty otherwise.
\<close>

record Payload =
  ptype :: jsval
  status :: jsval
  currentTurn :: jsval
  turn :: jsval
  nextTurn :: jsval
  players1 :: "PlayerData option"
  players2 :: "PlayerData option"
  events :: "Event list"

text \<open>\<open>type Shape = { id; name; cells: {x, y}[] }\<close> and a placed instance of one.\<close>

record Shape =
  shapeId :: string
  shapeName :: string
  shapeCells :: "(int \<times> int) list"

record PlacedShape =
  placedId :: string
  placedCells :: "(int \<times> int) list"

datatype DragSource = Palette | GridSource

text \<open>
  The state variables of GameScreen that the modelled code reads or writes. Cells of
  \<open>pendingAttack\<close>, \<open>placedCells\<close> and \<open>hoverPreview\<close> are (row, col) pairs; offsets
  in \<open>shapeCells\<close> are (x, y) pairs. \<open>gameResult\<close> stands for \<open>gameResult != null\<close>
  (its winner and loser labels are only rendered). Labels, status texts and grid metrics
  are not part of the model.
\<close>

record GameScreen =
  displayGameId :: string
  opponentUuid :: string
  selfToken :: "string option"
  selfUserId :: "string option"
  playerIndex :: "int option"
  playerOneUuid :: "string option"
  playerTwoUuid :: "string option"
  selfCombatSnapshot :: "PlayerCombatSnapshot option"
  opponentCombatSnapshot :: "PlayerCombatSnapshot option"
  gameResult :: bool
  isCurrentTurnSelf :: bool
  pendingAttack :: "(int \<times> int) option"
  isSubmittingAttack :: bool
  attackFeedback :: "string option"
  selfAttackHistory :: AttackHistory
  opponentAttackHistory :: AttackHistory
  hasBothBoardsSubmitted :: bool
  isConfirmed :: bool
  isSubmittingBoard :: bool
  placedShapesLeft :: "PlacedShape list"
  usedShapeIds :: "string set"
  draggingShape :: "Shape option"
  dragSource :: "DragSource option"
  hoverPreview :: "((int \<times> int) list \<times> bool) option"
  liftedPrevCellsRef :: "PlacedShape option"

text \<open>The initial values of the \<open>useState\<close> calls, for a given route.\<close>

definition initialScreen :: "string \<Rightarrow> string \<Rightarrow> GameScreen" where
  "initialScreen gid oppUuid =
     \<lparr> displayGameId = gid, opponentUuid = oppUuid, selfToken = None, selfUserId = None,
       playerIndex = None, playerOneUuid = None, playerTwoUuid = None,
       selfCombatSnapshot = None, opponentCombatSnapshot = None, gameResult = False,
       isCurrentTurnSelf = False, pendingAttack = None, isSubmittingAttack = False,
       attackFeedback = None,
       selfAttackHistory = \<lparr> hits = [], misses = [] \<rparr>,
       opponentAttackHistory = \<lparr> hits = [], misses = [] \<rparr>,
       hasBothBoardsSubmitted = False, isConfirmed = False, isSubmittingBoard = False,
       placedShapesLeft = [], usedShapeIds = {}, draggingShape = None, dragSource = None,
       hoverPreview = None, liftedPrevCellsRef = None \<rparr>"

section \<open>Snapshot and event reconciliation: applyGameStateUpdate\<close>

definition mapSnapshot :: "PlayerData option \<Rightarrow> PlayerCombatSnapshot" where
  "mapSnapshot d =
     (case d of
        None \<Rightarrow>
          \<lparr> uuid = None, name = None, boardSubmitted = False,
            snapHits = [], snapMisses = [], snapSunk = [] \<rparr>
      | Some x \<Rightarrow>
          \<lparr> uuid = (case dUuid x of JStr u \<Rightarrow> Some u | _ \<Rightarrow> None),
            name = (case dName x of
                      JStr n \<Rightarrow> (if trim n \<noteq> [] then Some (trim n) else None)
                    | _ \<Rightarrow> None),
            boardSubmitted = truthy (dBoardSubmitted x),
            snapHits = dHits x, snapMisses = dMisses x, snapSunk = dSunk x \<rparr>)"

text \<open>\<open>payload.currentTurn ?? payload.turn ?? payload.nextTurn\<close>\<close>

definition candidateTurn :: "Payload \<Rightarrow> jsval" where
  "candidateTurn p = nullish (nullish (currentTurn p) (turn p)) (nextTurn p)"

definition isGameStatus :: "Payload \<Rightarrow> bool" where
  "isGameStatus p = (ptype p = JStr ''game_status'')"

definition playerOneSnapshot :: "Payload \<Rightarrow> PlayerCombatSnapshot option" where
  "playerOneSnapshot p = (if isGameStatus p then Some (mapSnapshot (players1 p)) else None)"

definition playerTwoSnapshot :: "Payload \<Rightarrow> PlayerCombatSnapshot option" where
  "playerTwoSnapshot p = (if isGameStatus p then Some (mapSnapshot (players2 p)) else None)"

text \<open>\<open>snapshot?.uuid\<close>, and \<open>a ?? b\<close> on nullable strings and indices.\<close>

definition uuidOf :: "PlayerCombatSnapshot option \<Rightarrow> string option" where
  "uuidOf sn = (case sn of None \<Rightarrow> None | Some x \<Rightarrow> uuid x)"

fun orElse :: "'a option \<Rightarrow> 'a option \<Rightarrow> 'a option" where
  "orElse None b = b"
| "orElse (Some a) b = Some a"

definition nextPlayerOneUuid :: "Payload \<Rightarrow> GameScreen \<Rightarrow> string option" where
  "nextPlayerOneUuid p s = orElse (uuidOf (playerOneSnapshot p)) (playerOneUuid s)"

definition nextPlayerTwoUuid :: "Payload \<Rightarrow> GameScreen \<Rightarrow> string option" where
  "nextPlayerTwoUuid p s = orElse (uuidOf (playerTwoSnapshot p)) (playerTwoUuid s)"

text \<open>The pair (selfSnapshot, enemySnapshot) chosen at lines 738-755.\<close>

definition snapshotsFor ::
  "Payload \<Rightarrow> GameScreen \<Rightarrow> PlayerCombatSnapshot option \<times> PlayerCombatSnapshot option" where
  "snapshotsFor p s =
     (if playerIndex s = Some 1 then (playerOneSnapshot p, playerTwoSnapshot p)
      else if playerIndex s = Some 2 then (playerTwoSnapshot p, playerOneSnapshot p)
      else if truthyStr (selfUserId s) \<and> isGameStatus p then
        (if uuidOf (playerOneSnapshot p) = selfUserId s
           then (playerOneSnapshot p, playerTwoSnapshot p)
         else if uuidOf (playerTwoSnapshot p) = selfUserId s
           then (playerTwoSnapshot p, playerOneSnapshot p)
         else (None, None))
      else (None, None))"

definition selfSnapshot :: "Payload \<Rightarrow> GameScreen \<Rightarrow> PlayerCombatSnapshot option" where
  "selfSnapshot p s = fst (snapshotsFor p s)"

definition enemySnapshot :: "Payload \<Rightarrow> GameScreen \<Rightarrow> PlayerCombatSnapshot option" where
  "enemySnapshot p s = snd (snapshotsFor p s)"

definition getIndexForUuid :: "Payload \<Rightarrow> string option \<Rightarrow> int option" where
  "getIndexForUuid p u =
     (if \<not> truthyStr u then None
      else if truthyStr (uuidOf (playerOneSnapshot p)) \<and> uuidOf (playerOneSnapshot p) = u
        then Some 1
      else if truthyStr (uuidOf (playerTwoSnapshot p)) \<and> uuidOf (playerTwoSnapshot p) = u
        then Some 2
      else None)"

definition resolvedSelfIndex :: "Payload \<Rightarrow> GameScreen \<Rightarrow> int option" where
  "resolvedSelfIndex p s =
     orElse (orElse (playerIndex s)
                    (getIndexForUuid p (orElse (uuidOf (selfSnapshot p s)) (selfUserId s))))
            (getIndexForUuid p (selfUserId s))"

definition resolvedOpponentIndex :: "Payload \<Rightarrow> GameScreen \<Rightarrow> int option" where
  "resolvedOpponentIndex p s =
     (case resolvedSelfIndex p s of
        Some i \<Rightarrow> (if i = 1 then Some 2 else if i = 2 then Some 1 else None)
      | None \<Rightarrow>
          getIndexForUuid p (orElse (uuidOf (enemySnapshot p s)) (Some (opponentUuid s))))"

text \<open>\<open>isSelfTurnNow\<close>, lines 805-811.\<close>

definition isSelfTurnNow :: "Payload \<Rightarrow> GameScreen \<Rightarrow> bool" where
  "isSelfTurnNow p s =
     (candidateTurn p \<noteq> JUndefined \<and>
      (case resolvedSelfIndex p s of
         None \<Rightarrow> False
       | Some i \<Rightarrow>
           (case candidateTurn p of
              JStr t \<Rightarrow>
                (truthyStr (nextPlayerOneUuid p s) \<and> Some t = nextPlayerOneUuid p s) \<or>
                (truthyStr (nextPlayerTwoUuid p s) \<and> Some t = nextPlayerTwoUuid p s)
            | _ \<Rightarrow> False)
           \<or> candidateTurn p = JNum i))"

definition toCell :: "Event \<Rightarrow> AttackCell option" where
  "toCell e =
     (if evType e \<noteq> JStr ''attack'' then None
      else case evX e of
        None \<Rightarrow> None
      | Some x \<Rightarrow>
          (case evY e of
             None \<Rightarrow> None
           | Some y \<Rightarrow>
               Some \<lparr> row = y, col = x,
                      sunk = (evResult e = JStr ''hit'' \<and>
                              (evSunk e = JBool True \<or> truthy (evHitCode e))) \<rparr>))"

definition sameCell :: "AttackCell \<Rightarrow> AttackCell \<Rightarrow> bool" where
  "sameCell existing cell = (row existing = row cell \<and> col existing = col cell)"

text \<open>The key of a cell: \<open>sameCell a b\<close> says that the keys of a and b are equal.\<close>

definition cellKey :: "AttackCell \<Rightarrow> int \<times> int" where
  "cellKey c = (row c, col c)"

definition mergeCells :: "AttackCell list \<Rightarrow> AttackCell list \<Rightarrow> AttackCell list" where
  "mergeCells base additions =
     fold (\<lambda>cell next. if \<not> list_ex (\<lambda>existing. sameCell existing cell) next
                        then next @ [cell] else next)
          additions base"

text \<open>
  The two \<open>forEach\<close> loops that fill \<open>newHits\<close> and \<open>newMisses\<close> for the attacker with
  index \<open>idx\<close>.
\<close>

definition collectStep ::
  "int \<Rightarrow> Event \<Rightarrow> AttackCell list \<times> AttackCell list \<Rightarrow> AttackCell list \<times> AttackCell list" where
  "collectStep idx e acc =
     (if evPlayer e \<noteq> JNum idx then acc
      else case toCell e of
        None \<Rightarrow> acc
      | Some cell \<Rightarrow>
          (if evResult e = JStr ''hit'' then (fst acc @ [cell], snd acc)
           else if evResult e = JStr ''miss'' then (fst acc, snd acc @ [cell])
           else acc))"

definition collectCells :: "int \<Rightarrow> Event list \<Rightarrow> AttackCell list \<times> AttackCell list" where
  "collectCells idx evs = fold (collectStep idx) evs ([], [])"

definition updateHistory :: "int \<Rightarrow> Event list \<Rightarrow> AttackHistory \<Rightarrow> AttackHistory" where
  "updateHistory idx evs prev =
     (let newHits = fst (collectCells idx evs); newMisses = snd (collectCells idx evs)
      in if newHits = [] \<and> newMisses = [] then prev
         else \<lparr> hits = mergeCells (hits prev) newHits,
                misses = mergeCells (misses prev) newMisses \<rparr>)"

text \<open>
  \<open>gameEnded\<close>, lines 721-724. A numeric status becomes a string of digits, which never
  contains \<open>ended\<close>.
\<close>

definition gameEnded :: "Payload \<Rightarrow> bool" where
  "gameEnded p =
     ((case status p of JStr st \<Rightarrow> includesStr (toLowerCase st) ''ended'' | _ \<Rightarrow> False)
      \<or> ptype p = JStr ''game_ended'')"

definition applyGameStateUpdate :: "Payload \<Rightarrow> GameScreen \<Rightarrow> GameScreen" where
  "applyGameStateUpdate p s =
     s \<lparr> playerOneUuid := (if isGameStatus p then nextPlayerOneUuid p s else playerOneUuid s),
         playerTwoUuid := (if isGameStatus p then nextPlayerTwoUuid p s else playerTwoUuid s),
         selfCombatSnapshot :=
           (case selfSnapshot p s of Some sn \<Rightarrow> Some sn | None \<Rightarrow> selfCombatSnapshot s),
         isConfirmed :=
           (case selfSnapshot p s of
              Some sn \<Rightarrow> (if boardSubmitted sn then True else isConfirmed s)
            | None \<Rightarrow> isConfirmed s),
         opponentCombatSnapshot :=
           (case enemySnapshot p s of Some sn \<Rightarrow> Some sn | None \<Rightarrow> opponentCombatSnapshot s),
         hasBothBoardsSubmitted :=
           (case selfSnapshot p s of
              Some a \<Rightarrow>
                (case enemySnapshot p s of
                   Some b \<Rightarrow> boardSubmitted a \<and> boardSubmitted b
                 | None \<Rightarrow> hasBothBoardsSubmitted s)
            | None \<Rightarrow> hasBothBoardsSubmitted s),
         isCurrentTurnSelf := isSelfTurnNow p s,
         selfAttackHistory :=
           (case resolvedSelfIndex p s of
              Some i \<Rightarrow>
                (if events p \<noteq> [] then updateHistory i (events p) (selfAttackHistory s)
                 else selfAttackHistory s)
            | None \<Rightarrow> selfAttackHistory s),
         opponentAttackHistory :=
           (case resolvedSelfIndex p s of
              Some i \<Rightarrow>
                (case resolvedOpponentIndex p s of
                   Some j \<Rightarrow>
                     (if events p \<noteq> [] then updateHistory j (events p) (opponentAttackHistory s)
                      else opponentAttackHistory s)
                 | None \<Rightarrow> opponentAttackHistory s)
            | None \<Rightarrow> opponentAttackHistory s),
         gameResult := gameEnded p \<rparr>"

text \<open>
  The player whose label lines 679-690 make the turn label of a snapshot: 1 or 2 when the
  turn field is that number, or the player whose uuid the turn field equals. \<open>None\<close>
  when the update is no snapshot or the lines leave the label to \<open>resolveTurnLabel\<close>.
\<close>

definition turnOwnerSlot :: "Payload \<Rightarrow> GameScreen \<Rightarrow> int option" where
  "turnOwnerSlot p s =
     (if isGameStatus p \<and> candidateTurn p \<noteq> JUndefined then
        (if candidateTurn p = JNum 1 then Some 1
         else if candidateTurn p = JNum 2 then Some 2
         else case candidateTurn p of
           JStr t \<Rightarrow>
             (if truthyStr (nextPlayerOneUuid p s) \<and> Some t = nextPlayerOneUuid p s then Some 1
              else if truthyStr (nextPlayerTwoUuid p s) \<and> Some t = nextPlayerTwoUuid p s
                then Some 2
              else None)
         | _ \<Rightarrow> None)
      else None)"

section \<open>Turn gating and attack submission\<close>

definition isMyTurn :: "GameScreen \<Rightarrow> bool" where
  "isMyTurn s = (if gameResult s then False else isCurrentTurnSelf s)"

definition canFire :: "GameScreen \<Rightarrow> bool" where
  "canFire s =
     (if \<not> isConfirmed s then False
      else if \<not> hasBothBoardsSubmitted s then False
      else if \<not> isCurrentTurnSelf s then False
      else if isSubmittingAttack s \<or> pendingAttack s \<noteq> None then False
      else True)"

definition hasCell :: "AttackCell list \<Rightarrow> int \<Rightarrow> int \<Rightarrow> bool" where
  "hasCell cells r c = list_ex (\<lambda>cell. row cell = r \<and> col cell = c) cells"

text \<open>
  The effect of lines 1416-1426, run after every state change: it drops the pending
  attack once its cell is recorded or the turn is no longer the player's.
\<close>

definition pendingAttackEffect :: "GameScreen \<Rightarrow> GameScreen" where
  "pendingAttackEffect s =
     (case pendingAttack s of
        None \<Rightarrow> s
      | Some (r, c) \<Rightarrow>
          (if (hasCell (hits (selfAttackHistory s)) r c \<or>
               hasCell (misses (selfAttackHistory s)) r c) \<or> \<not> isMyTurn s
           then s \<lparr> pendingAttack := None \<rparr> else s))"

text \<open>
  \<open>handleFireAt\<close> is asynchronous. \<open>fireStart\<close> is the part before
  \<open>await gameApi.fireAttack\<close>: it returns the new state and the request it issues, if
  any, as (gameId, x, y). \<open>fireFinish\<close> is the part after the call has settled, with
  \<open>cap\<close> the state the callback captured when it was invoked.
\<close>

definition fireStart ::
  "int \<Rightarrow> int \<Rightarrow> GameScreen \<Rightarrow> GameScreen \<times> (string \<times> int \<times> int) option" where
  "fireStart r c s =
     (if \<not> canFire s then (s, None)
      else if displayGameId s = [] \<or> displayGameId s = ''pending'' then (s, None)
      else if hasCell (hits (selfAttackHistory s)) r c \<or>
              hasCell (misses (selfAttackHistory s)) r c
        then (s \<lparr> attackFeedback := Some ''Ai atacat deja acea celula.'' \<rparr>, None)
             \<comment> \<open>the source's text, without its one non-ASCII letter\<close>
      else (s \<lparr> isSubmittingAttack := True, pendingAttack := Some (r, c),
                attackFeedback := None \<rparr>,
            Some (displayGameId s, c, r)))"

text \<open>
  The settled call: the parsed response body, or the thrown \<open>Error\<close> with its message.
  \<open>rMessage\<close> is the response's message when it is truthy and empty otherwise.
\<close>

record FireResponse =
  rResult :: jsval
  rSunk :: jsval
  rHitCode :: jsval
  rMessage :: string
  rNextTurn :: jsval

datatype FireOutcome = Resolved FireResponse | Rejected string

text \<open>
  \<open>Number(nextTurn)\<close> (\<open>None\<close> is NaN). The equation for a string is never used: for a
  string the branch at lines 1210-1220 always overwrites what this number decides.
\<close>

fun toNumber :: "jsval \<Rightarrow> int option" where
  "toNumber (JNum n) = Some n"
| "toNumber JNull = Some 0"
| "toNumber (JBool b) = Some (if b then 1 else 0)"
| "toNumber (JOther n) = n"
| "toNumber JUndefined = None"
| "toNumber (JStr t) = None"

definition turnAfterFire :: "GameScreen \<Rightarrow> jsval \<Rightarrow> bool \<Rightarrow> bool" where
  "turnAfterFire cap nt prev =
     (if nt = JUndefined then prev
      else
        (let byIndex =
               (case playerIndex cap of
                  None \<Rightarrow> prev
                | Some i \<Rightarrow> (case toNumber nt of None \<Rightarrow> prev | Some n \<Rightarrow> n = i))
         in case nt of
              JStr t \<Rightarrow>
                (if truthyStr (selfUserId cap) \<and> Some t = selfUserId cap then True
                 else if truthyStr (playerOneUuid cap) \<and> Some t = playerOneUuid cap
                   then playerIndex cap = Some 1
                 else if truthyStr (playerTwoUuid cap) \<and> Some t = playerTwoUuid cap
                   then playerIndex cap = Some 2
                 else False)
            | _ \<Rightarrow> byIndex))"

definition fireFinish :: "GameScreen \<Rightarrow> int \<Rightarrow> int \<Rightarrow> FireOutcome \<Rightarrow> GameScreen \<Rightarrow> GameScreen" where
  "fireFinish cap r c outcome s =
     (case outcome of
        Rejected msg \<Rightarrow>
          s \<lparr> attackFeedback := Some (if msg \<noteq> [] then msg else ''Could not fire attack.''),
              isSubmittingAttack := False \<rparr>
      | Resolved resp \<Rightarrow>
          (let sunkFlag = (rResult resp = JStr ''hit'' \<and>
                           (rSunk resp = JBool True \<or> truthy (rHitCode resp)));
               firedCell = \<lparr> row = r, col = c, sunk = sunkFlag \<rparr>;
               prev = selfAttackHistory s
           in s \<lparr> attackFeedback :=
                    (if rMessage resp \<noteq> [] then Some (rMessage resp)
                     else if rResult resp = JStr ''hit'' then Some ''Lovit!''
                     else if rResult resp = JStr ''miss'' then Some ''Ratare.''
                     else attackFeedback s),
                  selfAttackHistory :=
                    (if rResult resp = JStr ''hit'' then
                       (if hasCell (hits prev) r c then prev
                        else \<lparr> hits = hits prev @ [firedCell], misses = misses prev \<rparr>)
                     else if rResult resp = JStr ''miss'' then
                       (if hasCell (misses prev) r c then prev
                        else \<lparr> hits = hits prev, misses = misses prev @ [firedCell] \<rparr>)
                     else prev),
                  isCurrentTurnSelf := turnAfterFire cap (rNextTurn resp) (isCurrentTurnSelf s),
                  isSubmittingAttack := False \<rparr>))"

section \<open>Identity resolution from the participant tokens\<close>

text \<open>
  The effect of lines 411-441. \<open>getUserIdFromToken\<close> decodes a JWT and is a parameter
  here: it gives the token's \<open>sub\<close> field when that is a string, and \<open>None\<close> when
  decoding throws (the effect catches that) or the field is no string.
\<close>

definition findStep ::
  "(string \<Rightarrow> string option) \<Rightarrow> string option \<Rightarrow> string option \<Rightarrow> int \<times> string \<Rightarrow> int \<Rightarrow> int" where
  "findStep getUserIdFromToken tok uid ic foundIndex =
     (if foundIndex \<noteq> -1 then foundIndex
      else if truthyStr tok \<and> Some (snd ic) = tok then fst ic
      else if truthyStr uid then
        (if getUserIdFromToken (snd ic) = uid then fst ic else foundIndex)
      else foundIndex)"

definition findSelfIndex ::
  "(string \<Rightarrow> string option) \<Rightarrow> string option \<Rightarrow> string option \<Rightarrow> string list \<Rightarrow> int" where
  "findSelfIndex getUserIdFromToken tok uid matchTokens =
     fold (findStep getUserIdFromToken tok uid)
          (zip (map int [0..<length matchTokens]) matchTokens) (-1)"

definition identityEffect ::
  "(string \<Rightarrow> string option) \<Rightarrow> string list \<Rightarrow> GameScreen \<Rightarrow> GameScreen" where
  "identityEffect getUserIdFromToken matchTokens s =
     (if matchTokens = [] then s
      else if \<not> truthyStr (selfToken s) \<and> \<not> truthyStr (selfUserId s) then s
      else
        (let foundIndex = findSelfIndex getUserIdFromToken (selfToken s) (selfUserId s) matchTokens
         in if foundIndex \<noteq> -1 \<and> playerIndex s \<noteq> Some (foundIndex + 1)
            then s \<lparr> playerIndex := Some (foundIndex + 1) \<rparr> else s))"

text \<open>What makes the loop of the effect stop at a candidate token.\<close>

definition tokenMatches ::
  "(string \<Rightarrow> string option) \<Rightarrow> string option \<Rightarrow> string option \<Rightarrow> string \<Rightarrow> bool" where
  "tokenMatches getUserIdFromToken tok uid candidate =
     ((truthyStr tok \<and> Some candidate = tok) \<or>
      (truthyStr uid \<and> getUserIdFromToken candidate = uid))"

text \<open>
  The resolution as the specification words it, for comparison: the first token equal to
  the local token, and only when there is none the first token whose subject is the
  local subject. \<open>None\<close> is "unknown".
\<close>

definition firstIndex :: "('a \<Rightarrow> bool) \<Rightarrow> 'a list \<Rightarrow> nat option" where
  "firstIndex P xs =
     (if list_ex P xs then Some (length (takeWhile (\<lambda>x. \<not> P x) xs)) else None)"

definition specSelfIndex ::
  "(string \<Rightarrow> string option) \<Rightarrow> string option \<Rightarrow> string option \<Rightarrow> string list \<Rightarrow> int option" where
  "specSelfIndex getUserIdFromToken tok uid matchTokens =
     (case firstIndex (\<lambda>t. Some t = tok) matchTokens of
        Some i \<Rightarrow> Some (int i + 1)
      | None \<Rightarrow>
          (case firstIndex (\<lambda>t. getUserIdFromToken t = uid) matchTokens of
             Some i \<Rightarrow> Some (int i + 1)
           | None \<Rightarrow> None))"

section \<open>Initial snapshot fetch: fetchStateWithRetry\<close>


text \<open>
  \<open>Math.min(1500, Math.round(200 * Math.pow(1.5, attempt)))\<close>. The products are dyadic
  rationals that a double holds exactly for every attempt the loop can reach, and
  \<open>Math.round\<close> rounds a half up, as \<open>round\<close> does.
\<close>

definition backoff :: "nat \<Rightarrow> int" where
  "backoff attempt = min 1500 (round (200 * (3 / 2 :: rat) ^ attempt))"















section \<open>Ship placement and board submission\<close>

definition shapes :: "Shape list" where
  "shapes =
     [ \<lparr> shapeId = ''s-3x1'', shapeName = ''3x1'', shapeCells = [(0, 0), (1, 0), (2, 0)] \<rparr>,
       \<lparr> shapeId = ''s-2x1'', shapeName = ''2x1'', shapeCells = [(0, 0), (1, 0)] \<rparr>,
       \<lparr> shapeId = ''s-2x2'', shapeName = ''2x2'',
         shapeCells = [(0, 0), (1, 0), (0, 1), (1, 1)] \<rparr>,
       \<lparr> shapeId = ''s-4x1'', shapeName = ''4x1'',
         shapeCells = [(0, 0), (1, 0), (2, 0), (3, 0)] \<rparr>,
       \<lparr> shapeId = ''s-u'', shapeName = ''U'',
         shapeCells = [(0, 0), (1, 0), (0, 1), (0, 2), (1, 2)] \<rparr> ]"

text \<open>
  \<open>shapesById\<close> is a plain object filled from the catalog, so \<open>shapesById[id]\<close> gives the
  catalog entry with that id, or else what the id names on \<open>Object.prototype\<close>. The members
  of the prototype are listed with their \<open>name\<close> property: each is a function named as its
  key, but \<open>constructor\<close>, which is the function \<open>Object\<close>, and \<open>__proto__\<close>, which is the
  prototype itself and has no name.
\<close>

datatype 'a property = Own 'a | Inherited "string option" | Absent

definition objectPrototype :: "(string \<times> string option) list" where
  "objectPrototype =
     [ (''constructor'', Some ''Object''),
       (''hasOwnProperty'', Some ''hasOwnProperty''),
       (''isPrototypeOf'', Some ''isPrototypeOf''),
       (''propertyIsEnumerable'', Some ''propertyIsEnumerable''),
       (''toLocaleString'', Some ''toLocaleString''),
       (''toString'', Some ''toString''),
       (''valueOf'', Some ''valueOf''),
       (''__defineGetter__'', Some ''__defineGetter__''),
       (''__defineSetter__'', Some ''__defineSetter__''),
       (''__lookupGetter__'', Some ''__lookupGetter__''),
       (''__lookupSetter__'', Some ''__lookupSetter__''),
       (''__proto__'', None) ]"

definition shapesById :: "string \<Rightarrow> Shape property" where
  "shapesById i =
     (case find (\<lambda>sh. shapeId sh = i) shapes of
        Some sh \<Rightarrow> Own sh
      | None \<Rightarrow> (case map_of objectPrototype i of Some n \<Rightarrow> Inherited n | None \<Rightarrow> Absent))"

definition inGrid :: "int \<times> int \<Rightarrow> bool" where
  "inGrid rc = (fst rc \<ge> 0 \<and> fst rc < 10 \<and> snd rc \<ge> 0 \<and> snd rc < 10)"

definition startDrag :: "Shape \<Rightarrow> GameScreen \<Rightarrow> GameScreen" where
  "startDrag shape s =
     (if isConfirmed s then s
      else s \<lparr> draggingShape := Some shape, dragSource := Some Palette \<rparr>)"

definition onPlacedDragStart :: "string \<Rightarrow> GameScreen \<Rightarrow> GameScreen" where
  "onPlacedDragStart i s =
     (if isConfirmed s then s
      else case find (\<lambda>p. placedId p = i) (placedShapesLeft s) of
        None \<Rightarrow> s
      | Some ps \<Rightarrow>
          (case find (\<lambda>sh. shapeId sh = i) shapes of
             None \<Rightarrow> s
           | Some shape \<Rightarrow>
               s \<lparr> liftedPrevCellsRef := Some \<lparr> placedId = i, placedCells = placedCells ps \<rparr>,
                   draggingShape := Some shape, dragSource := Some GridSource \<rparr>))"

text \<open>
  Where the pointer of a drag move is: coordinates that are null or NaN; a point outside
  the left grid (or no grid metrics yet); a point inside it, with
  \<open>row0 = floor((pageY - gy) / cellSize)\<close> and \<open>col0\<close> likewise.
\<close>

datatype DragPoint = BadCoords | OutsideGrid | OverGrid int int

definition clearDrag :: "GameScreen \<Rightarrow> GameScreen" where
  "clearDrag s =
     s \<lparr> draggingShape := None, hoverPreview := None, dragSource := None,
         liftedPrevCellsRef := None \<rparr>"

definition removePlaced :: "string \<Rightarrow> GameScreen \<Rightarrow> GameScreen" where
  "removePlaced i s =
     s \<lparr> placedShapesLeft := filter (\<lambda>ps. placedId ps \<noteq> i) (placedShapesLeft s),
         usedShapeIds := usedShapeIds s - {i} \<rparr>"

definition moveDrag :: "DragPoint \<Rightarrow> GameScreen \<Rightarrow> GameScreen" where
  "moveDrag pt s =
     (if isConfirmed s then s
      else case pt of
        BadCoords \<Rightarrow>
          clearDrag
            (case draggingShape s of
               Some shape \<Rightarrow>
                 (if dragSource s = Some GridSource then removePlaced (shapeId shape) s else s)
             | None \<Rightarrow> s)
      | OutsideGrid \<Rightarrow> s \<lparr> hoverPreview := None \<rparr>
      | OverGrid row0 col0 \<Rightarrow>
          (case draggingShape s of
             None \<Rightarrow> s \<lparr> hoverPreview := None \<rparr>
           | Some shape \<Rightarrow>
               (let cells = map (\<lambda>xy. (row0 + snd xy, col0 + fst xy)) (shapeCells shape);
                    inBounds = list_all inGrid cells;
                    overlaps =
                      list_ex (\<lambda>c. list_ex (\<lambda>ps. list_ex (\<lambda>q. q = c) (placedCells ps))
                                            (placedShapesLeft s)) cells
                in s \<lparr> hoverPreview := Some (cells, inBounds \<and> \<not> overlaps) \<rparr>)))"

text \<open>
  \<open>endDrag\<close>; \<open>withinPalette\<close> says whether the palette has been measured and the last
  drag coordinates lie inside it.
\<close>

definition dropOnGrid :: "Shape \<Rightarrow> (int \<times> int) list \<Rightarrow> GameScreen \<Rightarrow> GameScreen" where
  "dropOnGrid shape cells s =
     (if dragSource s = Some Palette then
        s \<lparr> placedShapesLeft :=
              placedShapesLeft s @ [\<lparr> placedId = shapeId shape, placedCells = cells \<rparr>],
            usedShapeIds := insert (shapeId shape) (usedShapeIds s) \<rparr>
      else if dragSource s = Some GridSource then
        (case liftedPrevCellsRef s of
           None \<Rightarrow> s
         | Some prev \<Rightarrow>
             (if placedId prev = [] then s
              else s \<lparr> placedShapesLeft :=
                         map (\<lambda>ps. if placedId ps = placedId prev
                                    then ps \<lparr> placedCells := cells \<rparr> else ps)
                             (placedShapesLeft s) \<rparr>))
      else s)"

definition endDrag :: "bool \<Rightarrow> GameScreen \<Rightarrow> GameScreen" where
  "endDrag withinPalette s =
     (if isConfirmed s then clearDrag s
      else
        clearDrag
          (case draggingShape s of
             None \<Rightarrow> s
           | Some shape \<Rightarrow>
               (case hoverPreview s of
                  Some (cells, True) \<Rightarrow> dropOnGrid shape cells s
                | _ \<Rightarrow>
                    (if withinPalette \<and> dragSource s = Some GridSource
                     then removePlaced (shapeId shape) s else s))))"

text \<open>
  \<open>buildBoardMatrix\<close>. Its parameter type gives a cell a \<open>number\<close> for its row and its
  column: a finite number (a rational, as every finite double is) or one of NaN, Infinity
  and -Infinity. The placed shapes of the screen hold integers.
\<close>

datatype jsnumber = Finite rat | NotFinite

record PlacedShapeRender =
  psId :: string
  psCells :: "(jsnumber \<times> jsnumber) list"

definition asRender :: "PlacedShape \<Rightarrow> PlacedShapeRender" where
  "asRender shape =
     \<lparr> psId = placedId shape,
       psCells = map (\<lambda>rc. (Finite (of_int (fst rc)), Finite (of_int (snd rc))))
                     (placedCells shape) \<rparr>"

text \<open>\<open>definition?.name ?? shape.id\<close>\<close>

definition labelOf :: "string \<Rightarrow> string" where
  "labelOf i =
     (case shapesById i of
        Own definition \<Rightarrow> shapeName definition
      | Inherited (Some n) \<Rightarrow> n
      | Inherited None \<Rightarrow> i
      | Absent \<Rightarrow> i)"

text \<open>
  \<open>n >= 0 && n < 10\<close>, and whether a number in that range is an index of an array of ten
  elements. \<open>board[row]\<close> is a row of the matrix for an index and undefined otherwise, and
  writing to a property of undefined throws a TypeError; \<open>board[row][col] = label\<close> for
  a column that is no index adds a property to the row and changes none of its elements.
\<close>

datatype error = TypeError

type_synonym board = "string option list list"

definition inRange :: "jsnumber \<Rightarrow> bool" where
  "inRange n = (case n of Finite q \<Rightarrow> q \<ge> 0 \<and> q < 10 | NotFinite \<Rightarrow> False)"

definition isIndex :: "jsnumber \<Rightarrow> bool" where
  "isIndex n = (case n of Finite q \<Rightarrow> q = of_int \<lfloor>q\<rfloor> | NotFinite \<Rightarrow> False)"

definition indexOf :: "jsnumber \<Rightarrow> nat" where
  "indexOf n = (case n of Finite q \<Rightarrow> nat \<lfloor>q\<rfloor> | NotFinite \<Rightarrow> 0)"

definition writeCell :: "string \<Rightarrow> jsnumber \<times> jsnumber \<Rightarrow> board \<Rightarrow> error + board" where
  "writeCell label rc board =
     (if inRange (fst rc) \<and> inRange (snd rc) then
        (if \<not> isIndex (fst rc) then Inl TypeError
         else if \<not> isIndex (snd rc) then Inr board
         else Inr (board [indexOf (fst rc) :=
                      (board ! indexOf (fst rc)) [indexOf (snd rc) := Some label]]))
      else Inr board)"

text \<open>The two \<open>forEach\<close> loops; an exception ends both.\<close>

fun writeCells :: "string \<Rightarrow> (jsnumber \<times> jsnumber) list \<Rightarrow> board \<Rightarrow> error + board" where
  "writeCells label [] board = Inr board"
| "writeCells label (rc # rest) board =
     (case writeCell label rc board of
        Inl e \<Rightarrow> Inl e
      | Inr b \<Rightarrow> writeCells label rest b)"

fun writeShapes :: "PlacedShapeRender list \<Rightarrow> board \<Rightarrow> error + board" where
  "writeShapes [] board = Inr board"
| "writeShapes (shape # rest) board =
     (case writeCells (labelOf (psId shape)) (psCells shape) board of
        Inl e \<Rightarrow> Inl e
      | Inr b \<Rightarrow> writeShapes rest b)"

definition buildBoardMatrix :: "PlacedShapeRender list \<Rightarrow> error + board" where
  "buildBoardMatrix placed = writeShapes placed (replicate 10 (replicate 10 None))"

text \<open>
  A board over a set of labels: ten rows of ten entries, each null or one of the labels.
  \<open>clipped\<close> drops the cells of a placed shape that fail the range test. \<open>integerRows\<close>:
  no cell that passes the range test has a row that is no index.
\<close>

definition boardOver :: "string set \<Rightarrow> board \<Rightarrow> bool" where
  "boardOver L board =
     (length board = 10 \<and>
      (\<forall>r \<in> set board. length r = 10 \<and> (\<forall>e \<in> set r. e = None \<or> e \<in> Some ` L)))"

definition passesRange :: "jsnumber \<times> jsnumber \<Rightarrow> bool" where
  "passesRange rc = (inRange (fst rc) \<and> inRange (snd rc))"

definition clipped :: "PlacedShapeRender \<Rightarrow> PlacedShapeRender" where
  "clipped shape = shape \<lparr> psCells := filter passesRange (psCells shape) \<rparr>"

definition integerRows :: "PlacedShapeRender list \<Rightarrow> bool" where
  "integerRows placed =
     list_all (\<lambda>shape. list_all (\<lambda>rc. \<not> (passesRange rc \<and> \<not> isIndex (fst rc)))
                                 (psCells shape)) placed"

text \<open>
  \<open>handleConfirmBoard\<close> up to its network call (\<open>token\<close> is what the token storage
  returns), then after the call has settled. The first part returns the request it
  issues, if any, as (gameId, board, token). A missing token and an exception of
  \<open>buildBoardMatrix\<close> end in the catch block, which shows an alert, and the final block
  resets \<open>isSubmittingBoard\<close>.
\<close>

datatype ConfirmOutcome = Submitted Payload | SubmitFailed string

definition handleConfirmBoard ::
  "string option \<Rightarrow> GameScreen \<Rightarrow> GameScreen \<times> (string \<times> board \<times> string) option" where
  "handleConfirmBoard token s =
     (if isConfirmed s \<or> isSubmittingBoard s then (s, None)
      else if placedShapesLeft s = [] then (s, None)
      else if displayGameId s = [] \<or> displayGameId s = ''pending'' then (s, None)
      else case token of
        None \<Rightarrow> (s, None)
      | Some t \<Rightarrow>
          (if t = [] then (s, None)
           else case buildBoardMatrix (map asRender (placedShapesLeft s)) of
             Inl e \<Rightarrow> (s, None)
           | Inr board \<Rightarrow>
               (s \<lparr> isSubmittingBoard := True \<rparr>, Some (displayGameId s, board, t))))"

definition confirmSettled :: "ConfirmOutcome \<Rightarrow> GameScreen \<Rightarrow> GameScreen" where
  "confirmSettled outcome s =
     (case outcome of
        Submitted response \<Rightarrow>
          (applyGameStateUpdate response s) \<lparr> isConfirmed := True, isSubmittingBoard := False \<rparr>
      | SubmitFailed msg \<Rightarrow> s \<lparr> isSubmittingBoard := False \<rparr>)"

text \<open>
  The "Confirm Ships" button (lines 1598-1608) is the only caller of
  \<open>handleConfirmBoard\<close>. It is rendered when the board is not confirmed and
  \<open>usedShapeIds.size === shapes.length\<close>, and disabled while a submission runs.
\<close>

definition confirmButtonShown :: "GameScreen \<Rightarrow> bool" where
  "confirmButtonShown s = (\<not> isConfirmed s \<and> card (usedShapeIds s) = length shapes)"

definition pressConfirm ::
  "string option \<Rightarrow> GameScreen \<Rightarrow> GameScreen \<times> (string \<times> board \<times> string) option" where
  "pressConfirm token s =
     (if confirmButtonShown s \<and> \<not> isSubmittingBoard s then handleConfirmBoard token s
      else (s, None))"

section \<open>Reachable states of the screen\<close>

text \<open>
  A placement is in order when the placed ids are distinct, are exactly the used ids and
  belong to the catalog, every placed cell is on the grid and no two placed shapes share
  a cell. \<open>freeCells\<close>: cells on the grid that no placed shape occupies.
\<close>

definition boardOk :: "PlacedShape list \<Rightarrow> string set \<Rightarrow> bool" where
  "boardOk placed used =
     (distinct (map placedId placed) \<and> set (map placedId placed) = used \<and>
      used \<subseteq> shapeId ` set shapes \<and>
      (\<forall>p \<in> set placed. \<forall>c \<in> set (placedCells p). inGrid c) \<and>
      (\<forall>p \<in> set placed. \<forall>q \<in> set placed.
          p \<noteq> q \<longrightarrow> set (placedCells p) \<inter> set (placedCells q) = {}))"

definition freeCells :: "PlacedShape list \<Rightarrow> (int \<times> int) list \<Rightarrow> bool" where
  "freeCells placed cells =
     ((\<forall>c \<in> set cells. inGrid c) \<and>
      (\<forall>p \<in> set placed. set cells \<inter> set (placedCells p) = {}))"

text \<open>
  The invariant of the placement state: the placement is in order, a preview marked valid
  is free, and a shape dragged from the palette is a catalog shape not yet used.
\<close>

definition placementOk :: "GameScreen \<Rightarrow> bool" where
  "placementOk s =
     (boardOk (placedShapesLeft s) (usedShapeIds s) \<and>
      (\<forall>cells. hoverPreview s = Some (cells, True) \<longrightarrow> freeCells (placedShapesLeft s) cells) \<and>
      (\<forall>shape. draggingShape s = Some shape \<and> dragSource s = Some Palette \<longrightarrow>
          shapeId shape \<in> shapeId ` set shapes \<and> shapeId shape \<notin> usedShapeIds s))"

text \<open>
  The states of the screen: the initial one and those its handlers and effects lead to.
  The palette offers a shape for dragging only while the board is not confirmed and the
  shape is not used (lines 1476 and 1490).
\<close>

inductive reachable :: "GameScreen \<Rightarrow> bool" where
  mounted: "reachable (initialScreen gid opp)"
| signedIn: "reachable s \<Longrightarrow> reachable (s \<lparr> selfToken := tok, selfUserId := uid \<rparr>)"
| identity: "reachable s \<Longrightarrow> reachable (identityEffect dec toks s)"
| update: "reachable s \<Longrightarrow> reachable (applyGameStateUpdate p s)"
| fire: "reachable s \<Longrightarrow> reachable (fst (fireStart r c s))"
| fired: "reachable s \<Longrightarrow> reachable (fireFinish cap r c outcome s)"
| pending: "reachable s \<Longrightarrow> reachable (pendingAttackEffect s)"
| palette: "reachable s \<Longrightarrow> \<not> isConfirmed s \<Longrightarrow> shape \<in> set shapes \<Longrightarrow>
            shapeId shape \<notin> usedShapeIds s \<Longrightarrow> reachable (startDrag shape s)"
| lifted: "reachable s \<Longrightarrow> reachable (onPlacedDragStart i s)"
| moved: "reachable s \<Longrightarrow> reachable (moveDrag pt s)"
| dropped: "reachable s \<Longrightarrow> reachable (endDrag wp s)"
| confirm: "reachable s \<Longrightarrow> reachable (fst (pressConfirm token s))"
| confirmed: "reachable s \<Longrightarrow> reachable (confirmSettled outcome s)"

section \<open>Scenarios\<close>

text \<open>Concrete payloads and states used to run the definitions above.\<close>

definition cellAt :: "int \<Rightarrow> int \<Rightarrow> AttackCell" where
  "cellAt r c = \<lparr> row = r, col = c, sunk = False \<rparr>"

definition attackEvent :: "int \<Rightarrow> int \<Rightarrow> int \<Rightarrow> string \<Rightarrow> Event" where
  "attackEvent player x y res =
     \<lparr> evType = JStr ''attack'', evPlayer = JNum player, evX = Some x, evY = Some y,
       evResult = JStr res, evSunk = JUndefined, evHitCode = JUndefined \<rparr>"

definition eventBatch :: "Event list \<Rightarrow> Payload" where
  "eventBatch evs =
     \<lparr> ptype = JUndefined, status = JUndefined, currentTurn = JUndefined, turn = JUndefined,
       nextTurn = JUndefined, players1 = None, players2 = None, events = evs \<rparr>"

definition playerEntry :: "string \<Rightarrow> bool \<Rightarrow> AttackCell list \<Rightarrow> PlayerData" where
  "playerEntry u submitted hs =
     \<lparr> dUuid = JStr u, dName = JUndefined, dBoardSubmitted = JBool submitted,
       dHits = hs, dMisses = [], dSunk = [] \<rparr>"

definition statusSnapshot :: "string \<Rightarrow> jsval \<Rightarrow> PlayerData \<Rightarrow> PlayerData \<Rightarrow> Payload" where
  "statusSnapshot st t p1 p2 =
     \<lparr> ptype = JStr ''game_status'', status = JStr st, currentTurn = t, turn = JUndefined,
       nextTurn = JUndefined, players1 = Some p1, players2 = Some p2, events = [] \<rparr>"

text \<open>The screen of player one once its token and index are known, before any update.\<close>

definition playerOneSeat :: GameScreen where
  "playerOneSeat =
     (initialScreen ''game-1'' [])
       \<lparr> selfToken := Some ''token-1'', selfUserId := Some ''u1'', playerIndex := Some 1 \<rparr>"

definition snapshotHits22 :: Payload where
  "snapshotHits22 =
     statusSnapshot ''active'' (JNum 1) (playerEntry ''u1'' True [cellAt 2 2])
       (playerEntry ''u2'' True [])"

definition snapshotHits33 :: Payload where
  "snapshotHits33 =
     statusSnapshot ''active'' (JNum 1) (playerEntry ''u1'' True [cellAt 3 3])
       (playerEntry ''u2'' True [])"

text \<open>
  Player one after an event has reported the hit (1,1) and a snapshot with the hit (2,2)
  has been stored.
\<close>

definition seenHit11Stored22 :: GameScreen where
  "seenHit11Stored22 =
     applyGameStateUpdate snapshotHits22
       (applyGameStateUpdate (eventBatch [attackEvent 1 1 1 ''hit'']) playerOneSeat)"

definition bothSubmitted :: "string \<Rightarrow> jsval \<Rightarrow> Payload" where
  "bothSubmitted st t =
     statusSnapshot st t (playerEntry ''u1'' True []) (playerEntry ''u2'' True [])"

text \<open>Player one after a snapshot in which both boards are submitted and the turn is 1.\<close>

definition readyToFire :: GameScreen where
  "readyToFire = applyGameStateUpdate (bothSubmitted ''active'' (JNum 1)) playerOneSeat"

text \<open>
  The screen once the stored token and its subject are known, and a decoder under which
  two different tokens carry that subject.
\<close>

definition signedIn :: GameScreen where
  "signedIn =
     (initialScreen ''game-1'' []) \<lparr> selfToken := Some ''token-1'', selfUserId := Some ''u1'' \<rparr>"

definition subjectOf :: "string \<Rightarrow> string option" where
  "subjectOf t = (if t = ''token-0'' \<or> t = ''token-1'' then Some ''u1'' else None)"

text \<open>
  Two placed shapes with cells beyond the grid, one of them with an unknown id; a shape
  with a cell in row one half; a shape whose id is a member of the prototype.
\<close>

definition strayShapes :: "PlacedShapeRender list" where
  "strayShapes =
     [ \<lparr> psId = ''s-2x1'', psCells = [(Finite 0, Finite 9), (Finite 0, Finite 10)] \<rparr>,
       \<lparr> psId = ''raft'', psCells = [(Finite (-1), Finite 0), (Finite 2, Finite 3)] \<rparr> ]"

definition halfRowShape :: "PlacedShapeRender list" where
  "halfRowShape = [ \<lparr> psId = ''s-2x1'', psCells = [(Finite (1 / 2), Finite 0)] \<rparr> ]"

definition constructorShape :: "PlacedShapeRender list" where
  "constructorShape = [ \<lparr> psId = ''constructor'', psCells = [(Finite 0, Finite 0)] \<rparr> ]"

text \<open>
  Dragging a palette shape over the grid cell (row0, col0) and releasing it; the five
  shapes placed one below the other, and the state before the last of them.
\<close>

definition placeShape :: "Shape \<Rightarrow> int \<Rightarrow> int \<Rightarrow> GameScreen \<Rightarrow> GameScreen" where
  "placeShape shape row0 col0 s =
     endDrag False (moveDrag (OverGrid row0 col0) (startDrag shape s))"

definition fourPlaced :: GameScreen where
  "fourPlaced =
     placeShape (shapes ! 3) 4 0
       (placeShape (shapes ! 2) 2 0
         (placeShape (shapes ! 1) 1 0
           (placeShape (shapes ! 0) 0 0 signedIn)))"

definition fullBoard :: GameScreen where
  "fullBoard = placeShape (shapes ! 4) 5 0 fourPlaced"

text \<open>
  A hit that sinks a ship and leaves the turn with player one, and the screen after player
  one's attack on (row 3, column 4) was answered with it.
\<close>

definition sinkingHit :: FireResponse where
  "sinkingHit =
     \<lparr> rResult = JStr ''hit'', rSunk = JBool True, rHitCode = JUndefined, rMessage = [],
       rNextTurn = JNum 1 \<rparr>"

definition afterHit :: GameScreen where
  "afterHit =
     pendingAttackEffect
       (fireFinish readyToFire 3 4 (Resolved sinkingHit) (fst (fireStart 3 4 readyToFire)))"

text \<open>A signed-in player whose subject no token and no snapshot knows.\<close>

definition stranger :: GameScreen where
  "stranger = signedIn \<lparr> selfToken := Some ''token-9'', selfUserId := Some ''u9'' \<rparr>"



section \<open>Properties of the reconciler\<close>

text \<open>The definitions that evaluating a scenario unfolds.\<close>

lemmas reconciler_defs = applyGameStateUpdate_def resolvedSelfIndex_def
  resolvedOpponentIndex_def selfSnapshot_def enemySnapshot_def snapshotsFor_def
  isGameStatus_def playerOneSnapshot_def playerTwoSnapshot_def mapSnapshot_def uuidOf_def
  getIndexForUuid_def updateHistory_def collectCells_def collectStep_def toCell_def
  mergeCells_def sameCell_def isSelfTurnNow_def candidateTurn_def nextPlayerOneUuid_def
  nextPlayerTwoUuid_def gameEnded_def toLowerCase_def lowerChar_def Let_def

lemmas scenario_defs = playerOneSeat_def initialScreen_def eventBatch_def attackEvent_def
  cellAt_def statusSnapshot_def playerEntry_def snapshotHits22_def

lemmas attack_defs = canFire_def fireStart_def fireFinish_def pendingAttackEffect_def
  isMyTurn_def hasCell_def turnAfterFire_def bothSubmitted_def readyToFire_def
  sinkingHit_def afterHit_def

lemmas placing_defs = placeShape_def startDrag_def moveDrag_def endDrag_def dropOnGrid_def
  clearDrag_def inGrid_def shapes_def Let_def

lemma list_ex_sameCell: "list_ex (\<lambda>e. sameCell e c) xs \<longleftrightarrow> cellKey c \<in> cellKey ` set xs"
  by (induction xs) (auto simp: sameCell_def cellKey_def)

lemma hasCell_iff: "hasCell xs r c \<longleftrightarrow> (r, c) \<in> cellKey ` set xs"
  by (induction xs) (auto simp: hasCell_def cellKey_def)

lemma mergeCells_Nil: "mergeCells b [] = b"
  by (simp add: mergeCells_def)

lemma mergeCells_Cons:
  "mergeCells b (a # as) =
     mergeCells (if cellKey a \<in> cellKey ` set b then b else b @ [a]) as"
  by (simp add: mergeCells_def list_ex_sameCell)

lemma keys_mergeCells: "cellKey ` set (mergeCells b a) = cellKey ` set b \<union> cellKey ` set a"
  by (induction a arbitrary: b) (auto simp: mergeCells_Nil mergeCells_Cons)

lemma mergeCells_noop: "cellKey ` set a \<subseteq> cellKey ` set b \<Longrightarrow> mergeCells b a = b"
  by (induction a arbitrary: b) (auto simp: mergeCells_Nil mergeCells_Cons)

lemma mergeCells_idem: "mergeCells (mergeCells b a) a = mergeCells b a"
  by (rule mergeCells_noop) (simp add: keys_mergeCells)

lemma mergeCells_prefix: "\<exists>ys. mergeCells b a = b @ ys"
proof (induction a arbitrary: b)
  case Nil
  show ?case by (simp add: mergeCells_Nil)
next
  case (Cons x xs)
  show ?case
  proof (cases "cellKey x \<in> cellKey ` set b")
    case True
    with Cons.IH [of b] show ?thesis by (simp add: mergeCells_Cons)
  next
    case False
    from Cons.IH [of "b @ [x]"] obtain ys where "mergeCells (b @ [x]) xs = (b @ [x]) @ ys" ..
    with False show ?thesis by (simp add: mergeCells_Cons)
  qed
qed

lemma mergeCells_distinct:
  "distinct (map cellKey b) \<Longrightarrow> distinct (map cellKey (mergeCells b a))"
  by (induction a arbitrary: b) (auto simp: mergeCells_Nil mergeCells_Cons)

lemma updateHistory_idem: "updateHistory i evs (updateHistory i evs h) = updateHistory i evs h"
  by (simp add: updateHistory_def Let_def mergeCells_idem)

lemma updateHistory_keys:
  "cellKey ` set (hits (updateHistory i evs h)) =
     cellKey ` set (hits h) \<union> cellKey ` set (fst (collectCells i evs))"
  "cellKey ` set (misses (updateHistory i evs h)) =
     cellKey ` set (misses h) \<union> cellKey ` set (snd (collectCells i evs))"
  by (simp_all add: updateHistory_def Let_def keys_mergeCells)

lemma updateHistory_noop:
  assumes "cellKey ` set (fst (collectCells i evs)) \<subseteq> cellKey ` set (hits h)"
    and "cellKey ` set (snd (collectCells i evs)) \<subseteq> cellKey ` set (misses h)"
  shows "updateHistory i evs h = h"
  using assms by (simp add: updateHistory_def Let_def mergeCells_noop)

lemma updateHistory_prefix:
  "\<exists>ys. hits (updateHistory i evs h) = hits h @ ys"
  "\<exists>ys. misses (updateHistory i evs h) = misses h @ ys"
  using mergeCells_prefix [of "hits h" "fst (collectCells i evs)"]
    mergeCells_prefix [of "misses h" "snd (collectCells i evs)"]
  by (simp_all add: updateHistory_def Let_def)

lemma orElse_idem: "orElse a (orElse a b) = orElse a b"
  by (cases a) simp_all

lemma snapshotsFor_eqI:
  "playerIndex t = playerIndex s \<Longrightarrow> selfUserId t = selfUserId s \<Longrightarrow>
   snapshotsFor p t = snapshotsFor p s"
  by (simp add: snapshotsFor_def)

lemma resolvedSelfIndex_eqI:
  "playerIndex t = playerIndex s \<Longrightarrow> selfUserId t = selfUserId s \<Longrightarrow>
   resolvedSelfIndex p t = resolvedSelfIndex p s"
  by (simp add: resolvedSelfIndex_def selfSnapshot_def snapshotsFor_eqI [of t s])

lemma snapshotsFor_apply: "snapshotsFor p (applyGameStateUpdate p s) = snapshotsFor p s"
  by (simp add: snapshotsFor_def applyGameStateUpdate_def)

lemma selfSnapshot_apply: "selfSnapshot p (applyGameStateUpdate p s) = selfSnapshot p s"
  by (simp add: selfSnapshot_def snapshotsFor_apply)

lemma enemySnapshot_apply: "enemySnapshot p (applyGameStateUpdate p s) = enemySnapshot p s"
  by (simp add: enemySnapshot_def snapshotsFor_apply)

lemma resolvedSelfIndex_apply:
  "resolvedSelfIndex p (applyGameStateUpdate p s) = resolvedSelfIndex p s"
  by (rule resolvedSelfIndex_eqI) (simp_all add: applyGameStateUpdate_def)

lemma apply_unchanged:
  "displayGameId (applyGameStateUpdate p s) = displayGameId s"
  "opponentUuid (applyGameStateUpdate p s) = opponentUuid s"
  "selfToken (applyGameStateUpdate p s) = selfToken s"
  "selfUserId (applyGameStateUpdate p s) = selfUserId s"
  "playerIndex (applyGameStateUpdate p s) = playerIndex s"
  "pendingAttack (applyGameStateUpdate p s) = pendingAttack s"
  "isSubmittingAttack (applyGameStateUpdate p s) = isSubmittingAttack s"
  "attackFeedback (applyGameStateUpdate p s) = attackFeedback s"
  "isSubmittingBoard (applyGameStateUpdate p s) = isSubmittingBoard s"
  "placedShapesLeft (applyGameStateUpdate p s) = placedShapesLeft s"
  "usedShapeIds (applyGameStateUpdate p s) = usedShapeIds s"
  "draggingShape (applyGameStateUpdate p s) = draggingShape s"
  "dragSource (applyGameStateUpdate p s) = dragSource s"
  "hoverPreview (applyGameStateUpdate p s) = hoverPreview s"
  "liftedPrevCellsRef (applyGameStateUpdate p s) = liftedPrevCellsRef s"
  "GameScreen.more (applyGameStateUpdate p s) = GameScreen.more s"
  by (simp_all add: applyGameStateUpdate_def)

lemma apply_changed:
  "playerOneUuid (applyGameStateUpdate p s) =
     (if isGameStatus p then nextPlayerOneUuid p s else playerOneUuid s)"
  "playerTwoUuid (applyGameStateUpdate p s) =
     (if isGameStatus p then nextPlayerTwoUuid p s else playerTwoUuid s)"
  "selfCombatSnapshot (applyGameStateUpdate p s) =
     (case selfSnapshot p s of Some sn \<Rightarrow> Some sn | None \<Rightarrow> selfCombatSnapshot s)"
  "isConfirmed (applyGameStateUpdate p s) =
     (case selfSnapshot p s of
        Some sn \<Rightarrow> (if boardSubmitted sn then True else isConfirmed s)
      | None \<Rightarrow> isConfirmed s)"
  "opponentCombatSnapshot (applyGameStateUpdate p s) =
     (case enemySnapshot p s of Some sn \<Rightarrow> Some sn | None \<Rightarrow> opponentCombatSnapshot s)"
  "hasBothBoardsSubmitted (applyGameStateUpdate p s) =
     (case selfSnapshot p s of
        Some a \<Rightarrow>
          (case enemySnapshot p s of
             Some b \<Rightarrow> boardSubmitted a \<and> boardSubmitted b
           | None \<Rightarrow> hasBothBoardsSubmitted s)
      | None \<Rightarrow> hasBothBoardsSubmitted s)"
  "isCurrentTurnSelf (applyGameStateUpdate p s) = isSelfTurnNow p s"
  "gameResult (applyGameStateUpdate p s) = gameEnded p"
  by (simp_all add: applyGameStateUpdate_def)

lemma apply_histories:
  "selfAttackHistory (applyGameStateUpdate p s) =
     (case resolvedSelfIndex p s of
        Some i \<Rightarrow> (if events p \<noteq> [] then updateHistory i (events p) (selfAttackHistory s)
                   else selfAttackHistory s)
      | None \<Rightarrow> selfAttackHistory s)"
  "opponentAttackHistory (applyGameStateUpdate p s) =
     (case resolvedSelfIndex p s of
        Some i \<Rightarrow>
          (case resolvedOpponentIndex p s of
             Some j \<Rightarrow>
               (if events p \<noteq> [] then updateHistory j (events p) (opponentAttackHistory s)
                else opponentAttackHistory s)
           | None \<Rightarrow> opponentAttackHistory s)
      | None \<Rightarrow> opponentAttackHistory s)"
  by (simp_all add: applyGameStateUpdate_def)

lemma resolvedOpponentIndex_eqI:
  "playerIndex t = playerIndex s \<Longrightarrow> selfUserId t = selfUserId s \<Longrightarrow>
   opponentUuid t = opponentUuid s \<Longrightarrow>
   resolvedOpponentIndex p t = resolvedOpponentIndex p s"
  by (simp add: resolvedOpponentIndex_def enemySnapshot_def snapshotsFor_eqI [of t s]
        resolvedSelfIndex_eqI [of t s] cong: option.case_cong)

lemma resolvedOpponentIndex_apply:
  "resolvedOpponentIndex p (applyGameStateUpdate p s) = resolvedOpponentIndex p s"
  by (rule resolvedOpponentIndex_eqI) (simp_all add: apply_unchanged)

lemma nextPlayerOneUuid_apply:
  "nextPlayerOneUuid p (applyGameStateUpdate p s) = nextPlayerOneUuid p s"
  by (simp add: nextPlayerOneUuid_def apply_changed orElse_idem
        playerOneSnapshot_def uuidOf_def)

lemma nextPlayerTwoUuid_apply:
  "nextPlayerTwoUuid p (applyGameStateUpdate p s) = nextPlayerTwoUuid p s"
  by (simp add: nextPlayerTwoUuid_def apply_changed orElse_idem
        playerTwoSnapshot_def uuidOf_def)

lemma isSelfTurnNow_apply: "isSelfTurnNow p (applyGameStateUpdate p s) = isSelfTurnNow p s"
  unfolding isSelfTurnNow_def resolvedSelfIndex_apply nextPlayerOneUuid_apply
    nextPlayerTwoUuid_apply ..

lemma apply_idem:
  "applyGameStateUpdate p (applyGameStateUpdate p s) = applyGameStateUpdate p s"
proof (rule GameScreen.equality)
  let ?s' = "applyGameStateUpdate p s"
  show "selfAttackHistory (applyGameStateUpdate p ?s') = selfAttackHistory ?s'"
    by (simp add: apply_histories resolvedSelfIndex_apply updateHistory_idem split: option.splits)
  show "opponentAttackHistory (applyGameStateUpdate p ?s') = opponentAttackHistory ?s'"
    by (simp add: apply_histories resolvedSelfIndex_apply resolvedOpponentIndex_apply
          updateHistory_idem split: option.splits)
  show "isCurrentTurnSelf (applyGameStateUpdate p ?s') = isCurrentTurnSelf ?s'"
    by (simp add: apply_changed isSelfTurnNow_apply)
  show "playerOneUuid (applyGameStateUpdate p ?s') = playerOneUuid ?s'"
    by (simp add: apply_changed nextPlayerOneUuid_apply)
  show "playerTwoUuid (applyGameStateUpdate p ?s') = playerTwoUuid ?s'"
    by (simp add: apply_changed nextPlayerTwoUuid_apply)
  show "selfCombatSnapshot (applyGameStateUpdate p ?s') = selfCombatSnapshot ?s'"
    by (simp add: apply_changed selfSnapshot_apply split: option.splits)
  show "opponentCombatSnapshot (applyGameStateUpdate p ?s') = opponentCombatSnapshot ?s'"
    by (simp add: apply_changed enemySnapshot_apply split: option.splits)
  show "isConfirmed (applyGameStateUpdate p ?s') = isConfirmed ?s'"
    by (simp add: apply_changed selfSnapshot_apply split: option.splits)
  show "hasBothBoardsSubmitted (applyGameStateUpdate p ?s') = hasBothBoardsSubmitted ?s'"
    by (simp add: apply_changed selfSnapshot_apply enemySnapshot_apply split: option.splits)
  show "gameResult (applyGameStateUpdate p ?s') = gameResult ?s'"
    by (simp add: apply_changed)
qed (simp_all add: apply_unchanged)

text \<open>
  C1, as amended. A snapshot is not merged into the locally held attack history: an update
  without events leaves both attack histories exactly as they were, and no update ever
  removes a recorded cell from them (each list only grows at its end). For a player the
  update identifies, the snapshot's cell lists are stored as the players' combat
  snapshots, replacing the ones stored before: player one's entry is the own snapshot
  when playerIndex is 1, player two's when it is 2, and, when playerIndex is neither, the
  entry of the first player whose uuid is the local subject. An update that is no snapshot,
  or in which the player is not identified, stores nothing.
\<close>

theorem snapshot_stored_history_kept:
  "(events p = [] \<longrightarrow>
      selfAttackHistory (applyGameStateUpdate p s) = selfAttackHistory s \<and>
      opponentAttackHistory (applyGameStateUpdate p s) = opponentAttackHistory s)
   \<and> (\<exists>ys. hits (selfAttackHistory (applyGameStateUpdate p s)) = hits (selfAttackHistory s) @ ys)
   \<and> (\<exists>ys. misses (selfAttackHistory (applyGameStateUpdate p s)) =
             misses (selfAttackHistory s) @ ys)
   \<and> (\<exists>ys. hits (opponentAttackHistory (applyGameStateUpdate p s)) =
             hits (opponentAttackHistory s) @ ys)
   \<and> (\<exists>ys. misses (opponentAttackHistory (applyGameStateUpdate p s)) =
             misses (opponentAttackHistory s) @ ys)
   \<and> (isGameStatus p \<and> playerIndex s = Some 1 \<longrightarrow>
        selfCombatSnapshot (applyGameStateUpdate p s) = Some (mapSnapshot (players1 p)) \<and>
        opponentCombatSnapshot (applyGameStateUpdate p s) = Some (mapSnapshot (players2 p)))
   \<and> (isGameStatus p \<and> playerIndex s = Some 2 \<longrightarrow>
        selfCombatSnapshot (applyGameStateUpdate p s) = Some (mapSnapshot (players2 p)) \<and>
        opponentCombatSnapshot (applyGameStateUpdate p s) = Some (mapSnapshot (players1 p)))
   \<and> (isGameStatus p \<and> playerIndex s \<noteq> Some 1 \<and> playerIndex s \<noteq> Some 2 \<and>
      truthyStr (selfUserId s) \<and> uuid (mapSnapshot (players1 p)) = selfUserId s \<longrightarrow>
        selfCombatSnapshot (applyGameStateUpdate p s) = Some (mapSnapshot (players1 p)) \<and>
        opponentCombatSnapshot (applyGameStateUpdate p s) = Some (mapSnapshot (players2 p)))
   \<and> (isGameStatus p \<and> playerIndex s \<noteq> Some 1 \<and> playerIndex s \<noteq> Some 2 \<and>
      truthyStr (selfUserId s) \<and> uuid (mapSnapshot (players1 p)) \<noteq> selfUserId s \<and>
      uuid (mapSnapshot (players2 p)) = selfUserId s \<longrightarrow>
        selfCombatSnapshot (applyGameStateUpdate p s) = Some (mapSnapshot (players2 p)) \<and>
        opponentCombatSnapshot (applyGameStateUpdate p s) = Some (mapSnapshot (players1 p)))
   \<and> (\<not> isGameStatus p \<or>
      (playerIndex s \<noteq> Some 1 \<and> playerIndex s \<noteq> Some 2 \<and>
       (\<not> truthyStr (selfUserId s) \<or>
        (uuid (mapSnapshot (players1 p)) \<noteq> selfUserId s \<and>
         uuid (mapSnapshot (players2 p)) \<noteq> selfUserId s))) \<longrightarrow>
        selfCombatSnapshot (applyGameStateUpdate p s) = selfCombatSnapshot s \<and>
        opponentCombatSnapshot (applyGameStateUpdate p s) = opponentCombatSnapshot s)"
proof -
  note snaps = apply_changed selfSnapshot_def enemySnapshot_def snapshotsFor_def
    playerOneSnapshot_def playerTwoSnapshot_def uuidOf_def
  have a: "events p = [] \<longrightarrow>
      selfAttackHistory (applyGameStateUpdate p s) = selfAttackHistory s \<and>
      opponentAttackHistory (applyGameStateUpdate p s) = opponentAttackHistory s"
    by (simp add: apply_histories split: option.splits)
  have b: "\<exists>ys. hits (selfAttackHistory (applyGameStateUpdate p s)) =
      hits (selfAttackHistory s) @ ys"
    by (simp add: apply_histories updateHistory_prefix split: option.splits)
  have c: "\<exists>ys. misses (selfAttackHistory (applyGameStateUpdate p s)) =
      misses (selfAttackHistory s) @ ys"
    by (simp add: apply_histories updateHistory_prefix split: option.splits)
  have d: "\<exists>ys. hits (opponentAttackHistory (applyGameStateUpdate p s)) =
      hits (opponentAttackHistory s) @ ys"
    by (simp add: apply_histories updateHistory_prefix split: option.splits)
  have e: "\<exists>ys. misses (opponentAttackHistory (applyGameStateUpdate p s)) =
      misses (opponentAttackHistory s) @ ys"
    by (simp add: apply_histories updateHistory_prefix split: option.splits)
  have f: "isGameStatus p \<and> playerIndex s = Some 1 \<longrightarrow>
        selfCombatSnapshot (applyGameStateUpdate p s) = Some (mapSnapshot (players1 p)) \<and>
        opponentCombatSnapshot (applyGameStateUpdate p s) = Some (mapSnapshot (players2 p))"
    by (simp add: snaps)
  have g: "isGameStatus p \<and> playerIndex s = Some 2 \<longrightarrow>
        selfCombatSnapshot (applyGameStateUpdate p s) = Some (mapSnapshot (players2 p)) \<and>
        opponentCombatSnapshot (applyGameStateUpdate p s) = Some (mapSnapshot (players1 p))"
    by (simp add: snaps)
  have h: "isGameStatus p \<and> playerIndex s \<noteq> Some 1 \<and> playerIndex s \<noteq> Some 2 \<and>
      truthyStr (selfUserId s) \<and> uuid (mapSnapshot (players1 p)) = selfUserId s \<longrightarrow>
        selfCombatSnapshot (applyGameStateUpdate p s) = Some (mapSnapshot (players1 p)) \<and>
        opponentCombatSnapshot (applyGameStateUpdate p s) = Some (mapSnapshot (players2 p))"
    by (simp add: snaps)
  have i: "isGameStatus p \<and> playerIndex s \<noteq> Some 1 \<and> playerIndex s \<noteq> Some 2 \<and>
      truthyStr (selfUserId s) \<and> uuid (mapSnapshot (players1 p)) \<noteq> selfUserId s \<and>
      uuid (mapSnapshot (players2 p)) = selfUserId s \<longrightarrow>
        selfCombatSnapshot (applyGameStateUpdate p s) = Some (mapSnapshot (players2 p)) \<and>
        opponentCombatSnapshot (applyGameStateUpdate p s) = Some (mapSnapshot (players1 p))"
    by (simp add: snaps)
  have j: "\<not> isGameStatus p \<or>
      (playerIndex s \<noteq> Some 1 \<and> playerIndex s \<noteq> Some 2 \<and>
       (\<not> truthyStr (selfUserId s) \<or>
        (uuid (mapSnapshot (players1 p)) \<noteq> selfUserId s \<and>
         uuid (mapSnapshot (players2 p)) \<noteq> selfUserId s))) \<longrightarrow>
        selfCombatSnapshot (applyGameStateUpdate p s) = selfCombatSnapshot s \<and>
        opponentCombatSnapshot (applyGameStateUpdate p s) = opponentCombatSnapshot s"
    by (auto simp: snaps)
  from a b c d e f g h i j show ?thesis by (intro conjI)
qed

text \<open>
  The amended C1 at player one, who holds the hit (1,1) and a stored snapshot with the hit
  (2,2), and receives a snapshot with the hit (3,3): the history is kept and the stored
  snapshot replaced. A player known by uuid only has the snapshot stored too; for a
  player the snapshot does not know, nothing is stored.
\<close>

theorem snapshot_stored_history_kept_witness:
  "hits (selfAttackHistory seenHit11Stored22) = [cellAt 1 1]
   \<and> map_option snapHits (selfCombatSnapshot seenHit11Stored22) = Some [cellAt 2 2]
   \<and> hits (selfAttackHistory (applyGameStateUpdate snapshotHits33 seenHit11Stored22))
       = [cellAt 1 1]
   \<and> map_option snapHits
        (selfCombatSnapshot (applyGameStateUpdate snapshotHits33 seenHit11Stored22))
       = Some [cellAt 3 3]
   \<and> map_option snapHits (selfCombatSnapshot (applyGameStateUpdate snapshotHits22 signedIn))
       = Some [cellAt 2 2]
   \<and> selfCombatSnapshot (applyGameStateUpdate snapshotHits22 stranger) = None"
proof -
  have before: "hits (selfAttackHistory seenHit11Stored22) = [cellAt 1 1] \<and>
      map_option snapHits (selfCombatSnapshot seenHit11Stored22) = Some [cellAt 2 2]"
    by (simp add: seenHit11Stored22_def scenario_defs reconciler_defs)
  have h1: "events snapshotHits33 = [] \<and> isGameStatus snapshotHits33 \<and>
      playerIndex seenHit11Stored22 = Some 1"
    by (simp add: seenHit11Stored22_def snapshotHits33_def scenario_defs isGameStatus_def
          apply_unchanged)
  from snapshot_stored_history_kept [of snapshotHits33 seenHit11Stored22] h1
  have "selfAttackHistory (applyGameStateUpdate snapshotHits33 seenHit11Stored22) =
      selfAttackHistory seenHit11Stored22 \<and>
    selfCombatSnapshot (applyGameStateUpdate snapshotHits33 seenHit11Stored22) =
      Some (mapSnapshot (players1 snapshotHits33))"
    by simp
  with before have a: "hits (selfAttackHistory
        (applyGameStateUpdate snapshotHits33 seenHit11Stored22)) = [cellAt 1 1] \<and>
      map_option snapHits
        (selfCombatSnapshot (applyGameStateUpdate snapshotHits33 seenHit11Stored22))
      = Some [cellAt 3 3]"
    by (simp add: snapshotHits33_def scenario_defs mapSnapshot_def)
  have h2: "isGameStatus snapshotHits22 \<and> playerIndex signedIn \<noteq> Some 1 \<and>
      playerIndex signedIn \<noteq> Some 2 \<and> truthyStr (selfUserId signedIn) \<and>
      uuid (mapSnapshot (players1 snapshotHits22)) = selfUserId signedIn"
    by (simp add: signedIn_def scenario_defs isGameStatus_def mapSnapshot_def)
  from snapshot_stored_history_kept [of snapshotHits22 signedIn] h2
  have "selfCombatSnapshot (applyGameStateUpdate snapshotHits22 signedIn) =
      Some (mapSnapshot (players1 snapshotHits22))"
    by simp
  then have b: "map_option snapHits
      (selfCombatSnapshot (applyGameStateUpdate snapshotHits22 signedIn)) = Some [cellAt 2 2]"
    by (simp add: scenario_defs mapSnapshot_def)
  have h3: "playerIndex stranger \<noteq> Some 1 \<and> playerIndex stranger \<noteq> Some 2 \<and>
      uuid (mapSnapshot (players1 snapshotHits22)) \<noteq> selfUserId stranger \<and>
      uuid (mapSnapshot (players2 snapshotHits22)) \<noteq> selfUserId stranger"
    by (simp add: stranger_def signedIn_def scenario_defs mapSnapshot_def)
  from snapshot_stored_history_kept [of snapshotHits22 stranger] h3
  have "selfCombatSnapshot (applyGameStateUpdate snapshotHits22 stranger) =
      selfCombatSnapshot stranger"
    by simp
  then have c: "selfCombatSnapshot (applyGameStateUpdate snapshotHits22 stranger) = None"
    by (simp add: stranger_def signedIn_def scenario_defs)
  from before a b c show ?thesis by simp
qed

text \<open>
  C1 as stated fails. Player one holds the hit (1,1), learnt from an event, and receives a
  snapshot whose hit list for player one is (2,2). In either order of arrival the attack
  history holds (1,1) alone and the stored snapshot holds (2,2) alone: no set of the
  screen is the union.
\<close>

theorem snapshot_not_unioned_counterexample:
  "hits (selfAttackHistory
      (applyGameStateUpdate (eventBatch [attackEvent 1 1 1 ''hit'']) playerOneSeat))
     = [cellAt 1 1]
   \<and> hits (selfAttackHistory
       (applyGameStateUpdate snapshotHits22
         (applyGameStateUpdate (eventBatch [attackEvent 1 1 1 ''hit'']) playerOneSeat)))
     = [cellAt 1 1]
   \<and> map_option snapHits (selfCombatSnapshot
       (applyGameStateUpdate snapshotHits22
         (applyGameStateUpdate (eventBatch [attackEvent 1 1 1 ''hit'']) playerOneSeat)))
     = Some [cellAt 2 2]
   \<and> hits (selfAttackHistory
       (applyGameStateUpdate (eventBatch [attackEvent 1 1 1 ''hit''])
         (applyGameStateUpdate snapshotHits22 playerOneSeat)))
     = [cellAt 1 1]
   \<and> map_option snapHits (selfCombatSnapshot
       (applyGameStateUpdate (eventBatch [attackEvent 1 1 1 ''hit''])
         (applyGameStateUpdate snapshotHits22 playerOneSeat)))
     = Some [cellAt 2 2]"
  by (simp add: scenario_defs reconciler_defs)

text \<open>
  C2, as amended. Within each list of an attacker the merge is a union keyed by cell; a
  batch whose hit cells are all in the hit list and whose miss cells are all in the miss
  list leaves the history unchanged; applying the same update twice gives the same screen
  state as applying it once.
\<close>

theorem event_merge_idempotent:
  "cellKey ` set (hits (updateHistory i evs h)) =
     cellKey ` set (hits h) \<union> cellKey ` set (fst (collectCells i evs))
   \<and> cellKey ` set (misses (updateHistory i evs h)) =
     cellKey ` set (misses h) \<union> cellKey ` set (snd (collectCells i evs))
   \<and> (cellKey ` set (fst (collectCells i evs)) \<subseteq> cellKey ` set (hits h) \<and>
      cellKey ` set (snd (collectCells i evs)) \<subseteq> cellKey ` set (misses h)
      \<longrightarrow> updateHistory i evs h = h)
   \<and> applyGameStateUpdate p (applyGameStateUpdate p s) = applyGameStateUpdate p s"
  by (simp add: updateHistory_keys updateHistory_noop apply_idem)

text \<open>The amended C2 at a hit event on (row 3, column 4), already in the hit list.\<close>

theorem event_merge_idempotent_witness:
  "cellKey ` set (fst (collectCells 1 [attackEvent 1 4 3 ''hit''])) \<subseteq>
     cellKey ` set (hits \<lparr> hits = [cellAt 3 4], misses = [] \<rparr>)
   \<and> cellKey ` set (snd (collectCells 1 [attackEvent 1 4 3 ''hit''])) \<subseteq>
     cellKey ` set (misses \<lparr> hits = [cellAt 3 4], misses = [] \<rparr>)
   \<and> updateHistory 1 [attackEvent 1 4 3 ''hit''] \<lparr> hits = [cellAt 3 4], misses = [] \<rparr> =
     \<lparr> hits = [cellAt 3 4], misses = [] \<rparr>"
proof -
  have h: "cellKey ` set (fst (collectCells 1 [attackEvent 1 4 3 ''hit''])) \<subseteq>
      cellKey ` set (hits \<lparr> hits = [cellAt 3 4], misses = [] \<rparr>)
    \<and> cellKey ` set (snd (collectCells 1 [attackEvent 1 4 3 ''hit''])) \<subseteq>
      cellKey ` set (misses \<lparr> hits = [cellAt 3 4], misses = [] \<rparr>)"
    by (simp add: collectCells_def collectStep_def toCell_def attackEvent_def cellAt_def
          cellKey_def)
  from event_merge_idempotent [of 1 "[attackEvent 1 4 3 ''hit'']"
      "\<lparr> hits = [cellAt 3 4], misses = [] \<rparr>" "eventBatch []" playerOneSeat] h
  show ?thesis by blast
qed

text \<open>
  C2 as stated fails. Player one's miss at (1,1) is recorded; a later event reports a hit
  by player one on the same cell. The cell is in that attacker's miss set, yet the event
  changes the history: the cell is now in both lists.
\<close>

theorem hit_after_miss_counterexample:
  "hasCell (misses (selfAttackHistory
      (applyGameStateUpdate (eventBatch [attackEvent 1 1 1 ''miss'']) playerOneSeat))) 1 1
   \<and> selfAttackHistory
       (applyGameStateUpdate (eventBatch [attackEvent 1 1 1 ''hit''])
         (applyGameStateUpdate (eventBatch [attackEvent 1 1 1 ''miss'']) playerOneSeat))
     = \<lparr> hits = [cellAt 1 1], misses = [cellAt 1 1] \<rparr>
   \<and> selfAttackHistory
       (applyGameStateUpdate (eventBatch [attackEvent 1 1 1 ''hit''])
         (applyGameStateUpdate (eventBatch [attackEvent 1 1 1 ''miss'']) playerOneSeat))
     \<noteq> selfAttackHistory
       (applyGameStateUpdate (eventBatch [attackEvent 1 1 1 ''miss'']) playerOneSeat)"
  by (simp add: scenario_defs reconciler_defs hasCell_def)

section \<open>Properties of turn gating and attack submission\<close>

lemma readyToFire_canFire: "canFire readyToFire"
  by (simp add: attack_defs scenario_defs reconciler_defs)

lemma fireStart_rejected_busy:
  "pendingAttack s \<noteq> None \<or> isSubmittingAttack s \<Longrightarrow> fireStart r c s = (s, None)"
  by (auto simp: fireStart_def canFire_def)

lemma fireStart_issued:
  "snd (fireStart r c s) \<noteq> None \<Longrightarrow> isSubmittingAttack (fst (fireStart r c s))"
  by (simp add: fireStart_def split: if_splits)

text \<open>
  C6. A call of handleFireAt while an attack is pending or a submission is in flight issues
  no request and leaves the state as it is; a call on a cell that is in the player's hit
  or miss list issues no request and leaves both attack histories as they are; once a
  call has issued its request, every further call is turned away, also after an update or
  the pending-attack effect has run in between.
\<close>

theorem submit_attack_guards:
  "(pendingAttack s \<noteq> None \<or> isSubmittingAttack s \<longrightarrow> fireStart r c s = (s, None))
   \<and> (hasCell (hits (selfAttackHistory s)) r c \<or> hasCell (misses (selfAttackHistory s)) r c \<longrightarrow>
        snd (fireStart r c s) = None \<and>
        selfAttackHistory (fst (fireStart r c s)) = selfAttackHistory s \<and>
        opponentAttackHistory (fst (fireStart r c s)) = opponentAttackHistory s)
   \<and> (snd (fireStart r c s) \<noteq> None \<longrightarrow>
        fireStart r' c' (fst (fireStart r c s)) = (fst (fireStart r c s), None) \<and>
        fireStart r' c' (applyGameStateUpdate p (fst (fireStart r c s))) =
          (applyGameStateUpdate p (fst (fireStart r c s)), None) \<and>
        fireStart r' c' (pendingAttackEffect (fst (fireStart r c s))) =
          (pendingAttackEffect (fst (fireStart r c s)), None))"
proof -
  have a: "pendingAttack s \<noteq> None \<or> isSubmittingAttack s \<longrightarrow> fireStart r c s = (s, None)"
    using fireStart_rejected_busy by blast
  have b: "hasCell (hits (selfAttackHistory s)) r c \<or> hasCell (misses (selfAttackHistory s)) r c \<longrightarrow>
        snd (fireStart r c s) = None \<and>
        selfAttackHistory (fst (fireStart r c s)) = selfAttackHistory s \<and>
        opponentAttackHistory (fst (fireStart r c s)) = opponentAttackHistory s"
    by (simp add: fireStart_def)
  have c: "snd (fireStart r c s) \<noteq> None \<longrightarrow>
        fireStart r' c' (fst (fireStart r c s)) = (fst (fireStart r c s), None) \<and>
        fireStart r' c' (applyGameStateUpdate p (fst (fireStart r c s))) =
          (applyGameStateUpdate p (fst (fireStart r c s)), None) \<and>
        fireStart r' c' (pendingAttackEffect (fst (fireStart r c s))) =
          (pendingAttackEffect (fst (fireStart r c s)), None)"
  proof
    assume "snd (fireStart r c s) \<noteq> None"
    then have busy: "isSubmittingAttack (fst (fireStart r c s))"
      by (rule fireStart_issued)
    have "isSubmittingAttack (applyGameStateUpdate p (fst (fireStart r c s)))"
      using busy by (simp add: apply_unchanged)
    moreover have "isSubmittingAttack (pendingAttackEffect (fst (fireStart r c s)))"
      using busy by (simp add: pendingAttackEffect_def split: option.splits)
    ultimately show "fireStart r' c' (fst (fireStart r c s)) = (fst (fireStart r c s), None) \<and>
        fireStart r' c' (applyGameStateUpdate p (fst (fireStart r c s))) =
          (applyGameStateUpdate p (fst (fireStart r c s)), None) \<and>
        fireStart r' c' (pendingAttackEffect (fst (fireStart r c s))) =
          (pendingAttackEffect (fst (fireStart r c s)), None)"
      using busy by (simp add: fireStart_rejected_busy)
  qed
  from a b c show ?thesis by blast
qed

lemma readyToFire_start:
  "fireStart 3 4 readyToFire =
     (readyToFire \<lparr> isSubmittingAttack := True, pendingAttack := Some (3, 4),
                    attackFeedback := None \<rparr>, Some (''game-1'', 4, 3))"
  by (simp add: attack_defs scenario_defs reconciler_defs)

lemma afterHit_value:
  "afterHit = readyToFire
     \<lparr> attackFeedback := Some ''Lovit!'',
       selfAttackHistory := \<lparr> hits = [\<lparr> row = 3, col = 4, sunk = True \<rparr>], misses = [] \<rparr> \<rparr>"
  by (simp add: afterHit_def readyToFire_start)
     (simp add: attack_defs scenario_defs reconciler_defs)

text \<open>
  C6 at a player ready to fire: the attack on (row 3, column 4) issues its request and a
  second call before the first has settled issues none; once the attack is recorded as a
  hit and the turn is the player's again, a call on the same cell issues none either.
\<close>

theorem submit_attack_guards_witness:
  "snd (fireStart 3 4 readyToFire) = Some (''game-1'', 4, 3)
   \<and> fireStart 5 5 (fst (fireStart 3 4 readyToFire)) = (fst (fireStart 3 4 readyToFire), None)
   \<and> canFire afterHit
   \<and> hasCell (hits (selfAttackHistory afterHit)) 3 4
   \<and> snd (fireStart 3 4 afterHit) = None
   \<and> selfAttackHistory (fst (fireStart 3 4 afterHit)) = selfAttackHistory afterHit"
proof -
  have h: "snd (fireStart 3 4 readyToFire) \<noteq> None"
    by (simp add: readyToFire_start)
  have k: "hasCell (hits (selfAttackHistory afterHit)) 3 4"
    by (simp add: afterHit_value hasCell_def)
  have c: "canFire afterHit"
    by (simp add: afterHit_value) (simp add: attack_defs scenario_defs reconciler_defs)
  from submit_attack_guards [of readyToFire 3 4 5 5 "eventBatch []"] h
  have a: "fireStart 5 5 (fst (fireStart 3 4 readyToFire)) = (fst (fireStart 3 4 readyToFire), None)"
    by simp
  from submit_attack_guards [of afterHit 3 4 5 5 "eventBatch []"] k
  have b: "snd (fireStart 3 4 afterHit) = None \<and>
      selfAttackHistory (fst (fireStart 3 4 afterHit)) = selfAttackHistory afterHit"
    by simp
  from a b c k show ?thesis by (simp add: readyToFire_start)
qed

text \<open>
  C3 on the code. Player one fires at (row 3, column 4) and the request fails with
  "Attack failed: 500". The message is shown, the history is untouched and the in-flight
  flag is reset, but the pending attack stays: only the pending-attack effect clears it,
  and it does so only for a recorded cell or a lost turn. The player can no longer fire.
\<close>

theorem failed_attack_keeps_pending:
  "snd (fireStart 3 4 readyToFire) = Some (''game-1'', 4, 3)
   \<and> pendingAttack (pendingAttackEffect
        (fireFinish readyToFire 3 4 (Rejected ''Attack failed: 500'')
           (fst (fireStart 3 4 readyToFire)))) = Some (3, 4)
   \<and> \<not> canFire (pendingAttackEffect
        (fireFinish readyToFire 3 4 (Rejected ''Attack failed: 500'')
           (fst (fireStart 3 4 readyToFire))))
   \<and> \<not> isSubmittingAttack (pendingAttackEffect
        (fireFinish readyToFire 3 4 (Rejected ''Attack failed: 500'')
           (fst (fireStart 3 4 readyToFire))))
   \<and> attackFeedback (pendingAttackEffect
        (fireFinish readyToFire 3 4 (Rejected ''Attack failed: 500'')
           (fst (fireStart 3 4 readyToFire)))) = Some ''Attack failed: 500''
   \<and> selfAttackHistory (pendingAttackEffect
        (fireFinish readyToFire 3 4 (Rejected ''Attack failed: 500'')
           (fst (fireStart 3 4 readyToFire)))) = selfAttackHistory readyToFire"
  by (simp add: readyToFire_start) (simp add: attack_defs scenario_defs reconciler_defs)

text \<open>
  C4 on the code. Player one receives a snapshot whose turn field is the uuid of player
  two. The turn label goes to player two, yet isCurrentTurnSelf becomes true, since lines
  808-810 accept the uuid of either player, and canFire is true for player one.
\<close>

theorem opponent_uuid_turn_enables_fire:
  "playerIndex playerOneSeat = Some 1
   \<and> turnOwnerSlot (bothSubmitted ''active'' (JStr ''u2'')) playerOneSeat = Some 2
   \<and> candidateTurn (bothSubmitted ''active'' (JStr ''u2'')) = JStr ''u2''
   \<and> playerTwoUuid (applyGameStateUpdate (bothSubmitted ''active'' (JStr ''u2'')) playerOneSeat)
       = Some ''u2''
   \<and> playerOneUuid (applyGameStateUpdate (bothSubmitted ''active'' (JStr ''u2'')) playerOneSeat)
       = Some ''u1''
   \<and> isCurrentTurnSelf
       (applyGameStateUpdate (bothSubmitted ''active'' (JStr ''u2'')) playerOneSeat)
   \<and> canFire (applyGameStateUpdate (bothSubmitted ''active'' (JStr ''u2'')) playerOneSeat)"
  by (simp add: attack_defs scenario_defs reconciler_defs turnOwnerSlot_def)

text \<open>
  C5, as amended. Every update decides the game result anew, from its own status and
  type: the result is set after an update exactly when that update carries an ended
  marker. While it is set, isMyTurn is false and the pending-attack effect drops a pending
  attack.
\<close>

theorem game_end_per_update:
  "gameResult (applyGameStateUpdate p s) = gameEnded p
   \<and> isMyTurn (applyGameStateUpdate p s) = (\<not> gameEnded p \<and> isSelfTurnNow p s)
   \<and> (gameEnded p \<longrightarrow> pendingAttack (pendingAttackEffect (applyGameStateUpdate p s)) = None)"
  by (simp add: apply_changed isMyTurn_def pendingAttackEffect_def split: option.splits)

text \<open>
  The amended C5 at a game_ended status arriving while an attack is pending.
\<close>

theorem game_end_per_update_witness:
  "gameEnded (bothSubmitted ''game_ended'' JUndefined)
   \<and> pendingAttack (pendingAttackEffect
       (applyGameStateUpdate (bothSubmitted ''game_ended'' JUndefined)
          (fst (fireStart 3 4 readyToFire)))) = None"
proof -
  have h: "gameEnded (bothSubmitted ''game_ended'' JUndefined)"
    by (simp add: attack_defs scenario_defs reconciler_defs)
  from game_end_per_update [of "bothSubmitted ''game_ended'' JUndefined"
      "fst (fireStart 3 4 readyToFire)"] h
  show ?thesis by blast
qed

text \<open>
  C5 as stated fails. After an update with status "ended" the game result is set; the
  next snapshot, with status "active" and turn 1, clears it, and player one can fire
  again.
\<close>

theorem ended_then_active_counterexample:
  "gameResult (applyGameStateUpdate (bothSubmitted ''ended'' JUndefined) readyToFire)
   \<and> \<not> canFire (applyGameStateUpdate (bothSubmitted ''ended'' JUndefined) readyToFire)
   \<and> \<not> gameResult (applyGameStateUpdate (bothSubmitted ''active'' (JNum 1))
         (applyGameStateUpdate (bothSubmitted ''ended'' JUndefined) readyToFire))
   \<and> isMyTurn (applyGameStateUpdate (bothSubmitted ''active'' (JNum 1))
         (applyGameStateUpdate (bothSubmitted ''ended'' JUndefined) readyToFire))
   \<and> canFire (applyGameStateUpdate (bothSubmitted ''active'' (JNum 1))
         (applyGameStateUpdate (bothSubmitted ''ended'' JUndefined) readyToFire))"
  by (simp add: attack_defs scenario_defs reconciler_defs)

section \<open>Properties of the initial fetch\<close>


lemma backoff_values:
  "backoff 0 = 200" "backoff 1 = 300" "backoff 2 = 450" "backoff 3 = 675"
  "backoff 4 = 1013" "backoff 5 = 1500" "backoff 6 = 1500"
  by code_simp+


















section \<open>Properties of identity resolution\<close>

lemma findStep_found: "f \<noteq> -1 \<Longrightarrow> fold (findStep dec tok uid) xs f = f"
  by (induction xs) (simp_all add: findStep_def)

lemma findStep_fresh:
  "findStep dec tok uid (i, c) (-1) = (if tokenMatches dec tok uid c then i else -1)"
  by (auto simp: findStep_def tokenMatches_def)

lemma fold_findStep:
  "fold (findStep dec tok uid) (zip (map int [k..<k + length ts]) ts) (-1) =
     (case firstIndex (tokenMatches dec tok uid) ts of
        Some i \<Rightarrow> int (k + i) | None \<Rightarrow> -1)"
proof (induction ts arbitrary: k)
  case Nil
  show ?case by (simp add: firstIndex_def)
next
  case (Cons t ts)
  have z: "zip (map int [k..<k + length (t # ts)]) (t # ts) =
      (int k, t) # zip (map int [Suc k..<Suc k + length ts]) ts"
    by (simp add: upt_conv_Cons del: upt_Suc)
  show ?case
  proof (cases "tokenMatches dec tok uid t")
    case True
    then show ?thesis
      by (simp only: z fold_simps findStep_fresh) (simp add: findStep_found firstIndex_def)
  next
    case False
    then show ?thesis
      using Cons.IH [of "Suc k"]
      by (simp only: z fold_simps findStep_fresh) (simp add: firstIndex_def)
  qed
qed

lemma findSelfIndex_first:
  "findSelfIndex dec tok uid ts =
     (case firstIndex (tokenMatches dec tok uid) ts of Some i \<Rightarrow> int i | None \<Rightarrow> -1)"
  using fold_findStep [of dec tok uid 0 ts]
  by (simp add: findSelfIndex_def split: option.splits)

lemma no_identity_no_turn:
  assumes "playerIndex s = None" "getIndexForUuid p (selfUserId s) = None"
  shows "resolvedSelfIndex p s = None"
proof -
  have "uuidOf (selfSnapshot p s) = None \<or> uuidOf (selfSnapshot p s) = selfUserId s"
    using assms(1) by (auto simp: selfSnapshot_def snapshotsFor_def uuidOf_def)
  then have "orElse (uuidOf (selfSnapshot p s)) (selfUserId s) = selfUserId s"
    by (cases "selfUserId s") auto
  with assms show ?thesis by (simp add: resolvedSelfIndex_def)
qed

text \<open>
  C9, as amended. For a non-empty token list and a known local token or subject, the
  effect sets playerIndex to the position plus one of the first token that equals the
  local token or whose subject equals the local subject, whichever kind of match comes
  first in the list; with no such token the state is left as it is, and nothing is
  raised (undecodable tokens are skipped). While playerIndex is unknown and no player
  uuid of an update equals the local subject, the update leaves isCurrentTurnSelf false
  and canFire false.
\<close>

theorem identity_first_match:
  "(matchTokens \<noteq> [] \<and> (truthyStr (selfToken s) \<or> truthyStr (selfUserId s)) \<longrightarrow>
      (case firstIndex (tokenMatches dec (selfToken s) (selfUserId s)) matchTokens of
         Some i \<Rightarrow> playerIndex (identityEffect dec matchTokens s) = Some (int i + 1)
       | None \<Rightarrow> identityEffect dec matchTokens s = s))
   \<and> (playerIndex s = None \<and> getIndexForUuid p (selfUserId s) = None \<longrightarrow>
        \<not> isCurrentTurnSelf (applyGameStateUpdate p s) \<and> \<not> canFire (applyGameStateUpdate p s))"
proof -
  have a: "matchTokens \<noteq> [] \<and> (truthyStr (selfToken s) \<or> truthyStr (selfUserId s)) \<longrightarrow>
      (case firstIndex (tokenMatches dec (selfToken s) (selfUserId s)) matchTokens of
         Some i \<Rightarrow> playerIndex (identityEffect dec matchTokens s) = Some (int i + 1)
       | None \<Rightarrow> identityEffect dec matchTokens s = s)"
    by (auto simp: identityEffect_def findSelfIndex_first Let_def split: option.splits)
  have b: "playerIndex s = None \<and> getIndexForUuid p (selfUserId s) = None \<longrightarrow>
        \<not> isCurrentTurnSelf (applyGameStateUpdate p s) \<and> \<not> canFire (applyGameStateUpdate p s)"
    by (auto simp: apply_changed isSelfTurnNow_def canFire_def no_identity_no_turn)
  from a b show ?thesis by blast
qed

text \<open>
  The amended C9 at a list whose second token is the local one, and at a player whom
  neither the list nor the snapshot knows.
\<close>

theorem identity_first_match_witness:
  "playerIndex (identityEffect (\<lambda>t. None) [''token-0'', ''token-1''] signedIn) = Some 2
   \<and> identityEffect subjectOf [''token-0'', ''token-1''] stranger = stranger
   \<and> \<not> canFire (applyGameStateUpdate (bothSubmitted ''active'' (JNum 1)) stranger)"
proof -
  have h: "[''token-0'', ''token-1''] \<noteq> [] \<and>
      (truthyStr (selfToken signedIn) \<or> truthyStr (selfUserId signedIn))"
    by (simp add: signedIn_def initialScreen_def)
  have f: "firstIndex (tokenMatches (\<lambda>t. None) (selfToken signedIn) (selfUserId signedIn))
      [''token-0'', ''token-1''] = Some 1"
    by (simp add: firstIndex_def tokenMatches_def signedIn_def initialScreen_def)
  from identity_first_match [of "[''token-0'', ''token-1'']" signedIn "\<lambda>t. None" "eventBatch []"] h f
  have a: "playerIndex (identityEffect (\<lambda>t. None) [''token-0'', ''token-1''] signedIn) = Some 2"
    by simp
  have h': "[''token-0'', ''token-1''] \<noteq> [] \<and>
      (truthyStr (selfToken stranger) \<or> truthyStr (selfUserId stranger))"
    by (simp add: stranger_def signedIn_def initialScreen_def)
  have f': "firstIndex (tokenMatches subjectOf (selfToken stranger) (selfUserId stranger))
      [''token-0'', ''token-1''] = None"
    by (simp add: firstIndex_def tokenMatches_def subjectOf_def stranger_def signedIn_def
          initialScreen_def)
  have g: "playerIndex stranger = None \<and>
      getIndexForUuid (bothSubmitted ''active'' (JNum 1)) (selfUserId stranger) = None"
    by (simp add: stranger_def signedIn_def bothSubmitted_def scenario_defs reconciler_defs)
  from identity_first_match [of "[''token-0'', ''token-1'']" stranger subjectOf
      "bothSubmitted ''active'' (JNum 1)"] h' f' g
  have b: "identityEffect subjectOf [''token-0'', ''token-1''] stranger = stranger \<and>
      \<not> canFire (applyGameStateUpdate (bothSubmitted ''active'' (JNum 1)) stranger)"
    by simp
  from a b show ?thesis by simp
qed

text \<open>
  C9 as stated fails. With the list (token-0, token-1), both of subject u1, and token-1
  held locally, the specification's rule gives index 2 (the exact match) and the effect
  gives index 1 (token-0 matches by subject first). And with a list in which no token
  matches, playerIndex stays unknown, yet after a snapshot whose player one has the local
  subject as uuid the player can fire.
\<close>

theorem identity_subject_before_token_counterexample:
  "specSelfIndex subjectOf (selfToken signedIn) (selfUserId signedIn) [''token-0'', ''token-1'']
     = Some 2
   \<and> playerIndex (identityEffect subjectOf [''token-0'', ''token-1''] signedIn) = Some 1
   \<and> specSelfIndex subjectOf (selfToken signedIn) (selfUserId signedIn) [''other-a'', ''other-b'']
     = None
   \<and> playerIndex (identityEffect subjectOf [''other-a'', ''other-b''] signedIn) = None
   \<and> canFire (applyGameStateUpdate (bothSubmitted ''active'' (JNum 1))
        (identityEffect subjectOf [''other-a'', ''other-b''] signedIn))"
  by (simp add: specSelfIndex_def firstIndex_def subjectOf_def signedIn_def identityEffect_def
        findSelfIndex_def findStep_def attack_defs scenario_defs reconciler_defs)

section \<open>Properties of the board matrix\<close>

lemma boardOver_empty: "boardOver L (replicate 10 (replicate 10 None))"
  by (simp add: boardOver_def)

lemma index_in_range: "inRange n \<Longrightarrow> indexOf n < 10"
proof (cases n)
  case (Finite q)
  assume "inRange n"
  with Finite have "q < 10" by (simp add: inRange_def)
  then have "\<lfloor>q\<rfloor> < 10" using floor_less_iff [of q 10] by simp
  then have "nat \<lfloor>q\<rfloor> < 10" by linarith
  with Finite show ?thesis by (simp add: indexOf_def)
next
  case NotFinite
  assume "inRange n"
  with NotFinite show ?thesis by (simp add: inRange_def)
qed

lemma boardOver_update:
  assumes "boardOver L board" "label \<in> L" "i < 10"
  shows "boardOver L (board [i := (board ! i) [j := Some label]])"
proof -
  from assms have i: "i < length board" by (simp add: boardOver_def)
  then have old: "board ! i \<in> set board" by simp
  let ?row = "(board ! i) [j := Some label]"
  have row: "length ?row = 10 \<and> (\<forall>e \<in> set ?row. e = None \<or> e \<in> Some ` L)"
  proof
    from assms old show "length ?row = 10" by (simp add: boardOver_def)
    show "\<forall>e \<in> set ?row. e = None \<or> e \<in> Some ` L"
    proof
      fix e assume "e \<in> set ?row"
      then have "e = Some label \<or> e \<in> set (board ! i)"
        using set_update_subset_insert [of "board ! i" j "Some label"] by auto
      with assms old show "e = None \<or> e \<in> Some ` L" by (auto simp: boardOver_def)
    qed
  qed
  have "set (board [i := ?row]) \<subseteq> insert ?row (set board)"
    by (rule set_update_subset_insert)
  with row assms show ?thesis
    by (auto simp: boardOver_def)
qed

lemma writeCell_cases:
  "writeCell label rc board =
     (if passesRange rc \<and> \<not> isIndex (fst rc) then Inl TypeError
      else if passesRange rc \<and> isIndex (snd rc)
        then Inr (board [indexOf (fst rc) :=
                    (board ! indexOf (fst rc)) [indexOf (snd rc) := Some label]])
      else Inr board)"
  by (simp add: writeCell_def passesRange_def)

lemma boardOver_writeCell:
  assumes "boardOver L board" "label \<in> L" "writeCell label rc board = Inr b"
  shows "boardOver L b"
proof (cases "passesRange rc \<and> isIndex (snd rc)")
  case True
  then have "indexOf (fst rc) < 10" by (simp add: passesRange_def index_in_range)
  with assms(1,2) have "boardOver L (board [indexOf (fst rc) :=
      (board ! indexOf (fst rc)) [indexOf (snd rc) := Some label]])"
    by (rule boardOver_update)
  with assms(3) True show ?thesis
    by (simp add: writeCell_cases split: if_splits)
next
  case False
  with assms show ?thesis
    by (auto simp: writeCell_cases split: if_splits)
qed

lemma writeCells_ok:
  assumes "label \<in> L"
  shows "boardOver L board \<Longrightarrow> list_all (\<lambda>rc. \<not> (passesRange rc \<and> \<not> isIndex (fst rc))) cells \<Longrightarrow>
     \<exists>b. writeCells label cells board = Inr b \<and> boardOver L b"
proof (induction cells arbitrary: board)
  case Nil
  then show ?case by simp
next
  case (Cons rc cells)
  from Cons.prems(2) have "\<not> (passesRange rc \<and> \<not> isIndex (fst rc))" by simp
  then obtain b where b: "writeCell label rc board = Inr b"
    by (cases "passesRange rc \<and> isIndex (snd rc)") (auto simp: writeCell_cases)
  with Cons.prems(1) assms have "boardOver L b" by (rule boardOver_writeCell)
  with Cons.IH [of b] Cons.prems(2) b show ?case by simp
qed

lemma writeCells_throws:
  "\<not> list_all (\<lambda>rc. \<not> (passesRange rc \<and> \<not> isIndex (fst rc))) cells \<Longrightarrow>
   writeCells label cells board = Inl TypeError"
proof (induction cells arbitrary: board)
  case Nil
  then show ?case by simp
next
  case (Cons rc cells)
  show ?case
  proof (cases "passesRange rc \<and> \<not> isIndex (fst rc)")
    case True
    then show ?thesis by (simp add: writeCell_cases)
  next
    case False
    with Cons.prems have rest: "\<not> list_all (\<lambda>rc. \<not> (passesRange rc \<and> \<not> isIndex (fst rc))) cells"
      by simp
    from False obtain b where "writeCell label rc board = Inr b"
      by (cases "passesRange rc \<and> isIndex (snd rc)") (auto simp: writeCell_cases)
    with Cons.IH [OF rest, of b] show ?thesis by simp
  qed
qed

lemma writeShapes_ok:
  "boardOver L board \<Longrightarrow> (\<lambda>shape. labelOf (psId shape)) ` set placed \<subseteq> L \<Longrightarrow>
   integerRows placed \<Longrightarrow> \<exists>b. writeShapes placed board = Inr b \<and> boardOver L b"
proof (induction placed arbitrary: board)
  case Nil
  then show ?case by simp
next
  case (Cons shape placed)
  from Cons.prems(2) have l: "labelOf (psId shape) \<in> L" by simp
  from Cons.prems(3) have
    cells: "list_all (\<lambda>rc. \<not> (passesRange rc \<and> \<not> isIndex (fst rc))) (psCells shape)"
    and rest: "integerRows placed"
    by (simp_all add: integerRows_def)
  from writeCells_ok [OF l Cons.prems(1) cells] obtain b
    where b: "writeCells (labelOf (psId shape)) (psCells shape) board = Inr b" "boardOver L b"
    by blast
  from Cons.IH [OF b(2) _ rest] Cons.prems(2) b(1) show ?case by simp
qed

lemma writeShapes_throws:
  "\<not> integerRows placed \<Longrightarrow> writeShapes placed board = Inl TypeError"
proof (induction placed arbitrary: board)
  case Nil
  then show ?case by (simp add: integerRows_def)
next
  case (Cons shape placed)
  show ?case
  proof (cases "list_all (\<lambda>rc. \<not> (passesRange rc \<and> \<not> isIndex (fst rc))) (psCells shape)")
    case False
    then show ?thesis by (simp add: writeCells_throws)
  next
    case True
    with Cons.prems have rest: "\<not> integerRows placed" by (simp add: integerRows_def)
    show ?thesis
    proof (cases "writeCells (labelOf (psId shape)) (psCells shape) board")
      case (Inl e)
      then show ?thesis by (cases e) simp
    next
      case (Inr b)
      with Cons.IH [OF rest, of b] show ?thesis by simp
    qed
  qed
qed

lemma writeCell_outside: "\<not> passesRange rc \<Longrightarrow> writeCell label rc board = Inr board"
  by (simp add: writeCell_cases)

lemma writeCells_filter:
  "writeCells label (filter passesRange cells) board = writeCells label cells board"
  by (induction cells arbitrary: board) (simp_all add: writeCell_outside split: sum.splits)

lemma writeShapes_clipped: "writeShapes (map clipped placed) board = writeShapes placed board"
proof (induction placed arbitrary: board)
  case Nil
  show ?case by simp
next
  case (Cons p ps)
  have "writeCells (labelOf (psId (clipped p))) (psCells (clipped p)) board =
      writeCells (labelOf (psId p)) (psCells p) board"
    by (simp add: clipped_def writeCells_filter)
  with Cons.IH show ?case by (simp split: sum.splits)
qed

lemma integerRows_asRender: "integerRows (map asRender ps)"
  by (simp add: integerRows_def asRender_def list_all_iff isIndex_def)

text \<open>
  C10, as amended. For every list of placed shapes in which no cell that passes the range
  test has a row that is not an integer, the matrix is built, has ten rows of ten entries,
  and every entry is null or the label of a placed shape: its catalog name, the name
  that the prototype of the lookup object gives its id (Object for the id constructor),
  and its id otherwise. For every other list the function throws a TypeError. The cells
  that fail the range test play no part in either case: the result is that for the shapes
  with those cells removed. The placed shapes of the screen have integer cells.
\<close>

theorem board_matrix_ten_by_ten:
  "(integerRows placed \<longrightarrow>
      (\<exists>board. buildBoardMatrix placed = Inr board \<and> length board = 10 \<and>
         (\<forall>r \<in> set board.
            length r = 10 \<and>
            (\<forall>e \<in> set r. e = None \<or> (\<exists>shape \<in> set placed. e = Some (labelOf (psId shape)))))))
   \<and> (\<not> integerRows placed \<longrightarrow> buildBoardMatrix placed = Inl TypeError)
   \<and> buildBoardMatrix (map clipped placed) = buildBoardMatrix placed
   \<and> integerRows (map asRender shapesOfScreen)"
proof -
  have a: "integerRows placed \<longrightarrow>
      (\<exists>board. buildBoardMatrix placed = Inr board \<and> length board = 10 \<and>
         (\<forall>r \<in> set board.
            length r = 10 \<and>
            (\<forall>e \<in> set r. e = None \<or> (\<exists>shape \<in> set placed. e = Some (labelOf (psId shape))))))"
  proof
    assume "integerRows placed"
    with writeShapes_ok [OF boardOver_empty,
        where L = "(\<lambda>shape. labelOf (psId shape)) ` set placed" and placed = placed]
    obtain b where b: "buildBoardMatrix placed = Inr b"
      "boardOver ((\<lambda>shape. labelOf (psId shape)) ` set placed) b"
      by (auto simp: buildBoardMatrix_def)
    from b(2) have "length b = 10 \<and>
         (\<forall>r \<in> set b.
            length r = 10 \<and>
            (\<forall>e \<in> set r. e = None \<or> (\<exists>shape \<in> set placed. e = Some (labelOf (psId shape)))))"
      by (auto simp: boardOver_def)
    with b(1) show "\<exists>board. buildBoardMatrix placed = Inr board \<and> length board = 10 \<and>
         (\<forall>r \<in> set board.
            length r = 10 \<and>
            (\<forall>e \<in> set r. e = None \<or> (\<exists>shape \<in> set placed. e = Some (labelOf (psId shape)))))"
      by blast
  qed
  have b: "\<not> integerRows placed \<longrightarrow> buildBoardMatrix placed = Inl TypeError"
    by (simp add: buildBoardMatrix_def writeShapes_throws)
  have c: "buildBoardMatrix (map clipped placed) = buildBoardMatrix placed"
    by (simp add: buildBoardMatrix_def writeShapes_clipped)
  from a b c integerRows_asRender show ?thesis by (intro conjI)
qed

text \<open>The definitions that evaluating a matrix unfolds.\<close>

lemmas matrix_defs = buildBoardMatrix_def writeCell_def inRange_def isIndex_def indexOf_def
  labelOf_def shapesById_def shapes_def objectPrototype_def

lemma stray_board:
  "buildBoardMatrix strayShapes = Inr
    [ [None, None, None, None, None, None, None, None, None, Some ''2x1''],
      replicate 10 None,
      [None, None, None, Some ''raft'', None, None, None, None, None, None],
      replicate 10 None, replicate 10 None, replicate 10 None, replicate 10 None,
      replicate 10 None, replicate 10 None, replicate 10 None ]"
  by (simp add: strayShapes_def matrix_defs eval_nat_numeral)

lemma stray_integerRows: "integerRows strayShapes"
  by (simp add: strayShapes_def integerRows_def passesRange_def inRange_def isIndex_def)

text \<open>
  The amended C10 at two shapes with cells at column 10 and row -1, which are ignored, and
  at a shape with a cell in row one half.
\<close>

theorem board_matrix_ten_by_ten_witness:
  "integerRows strayShapes
   \<and> (\<exists>board. buildBoardMatrix strayShapes = Inr board \<and> length board = 10
        \<and> Some ''2x1'' \<in> set (board ! 0))
   \<and> buildBoardMatrix halfRowShape = Inl TypeError"
proof -
  from board_matrix_ten_by_ten [of strayShapes] stray_integerRows
  obtain board where b: "buildBoardMatrix strayShapes = Inr board" "length board = 10"
    by blast
  with stray_board have "Some ''2x1'' \<in> set (board ! 0)" by auto
  with b have a: "\<exists>board. buildBoardMatrix strayShapes = Inr board \<and> length board = 10
        \<and> Some ''2x1'' \<in> set (board ! 0)"
    by blast
  have "\<not> integerRows halfRowShape"
    by code_simp
  with board_matrix_ten_by_ten [of halfRowShape]
  have c: "buildBoardMatrix halfRowShape = Inl TypeError" by blast
  from stray_integerRows a c show ?thesis by (intro conjI)
qed

text \<open>
  C10 as stated fails. For a placed shape with the cell (row 0.5, column 0) the range test
  passes, \<open>board[0.5]\<close> is undefined and the function throws: no matrix is built. And for
  a placed shape with the id constructor the entry written is Object, which is neither
  the id nor a catalog name.
\<close>

theorem board_matrix_throws_counterexample:
  "buildBoardMatrix halfRowShape = Inl TypeError
   \<and> buildBoardMatrix constructorShape = Inr
      [ [Some ''Object'', None, None, None, None, None, None, None, None, None],
        replicate 10 None, replicate 10 None, replicate 10 None, replicate 10 None,
        replicate 10 None, replicate 10 None, replicate 10 None, replicate 10 None,
        replicate 10 None ]"
  by code_simp

section \<open>Properties of ship placement and board submission\<close>

lemma boardOk_append:
  assumes "boardOk placed used" "freeCells placed cells" "i \<notin> used" "i \<in> shapeId ` set shapes"
  shows "boardOk (placed @ [\<lparr> placedId = i, placedCells = cells \<rparr>]) (insert i used)"
proof -
  from assms(1,3) have fresh: "\<forall>p \<in> set placed. placedId p \<noteq> i"
    by (auto simp: boardOk_def)
  from assms(1,3) have d: "distinct (map placedId (placed @ [\<lparr> placedId = i, placedCells = cells \<rparr>]))"
    by (auto simp: boardOk_def)
  from assms(1) have u: "set (map placedId (placed @ [\<lparr> placedId = i, placedCells = cells \<rparr>])) = insert i used"
    by (auto simp: boardOk_def)
  from assms(1,4) have c: "insert i used \<subseteq> shapeId ` set shapes"
    by (auto simp: boardOk_def)
  from assms(1,2) have g: "\<forall>p \<in> set (placed @ [\<lparr> placedId = i, placedCells = cells \<rparr>]).
      \<forall>c \<in> set (placedCells p). inGrid c"
    by (auto simp: boardOk_def freeCells_def)
  from assms(1,2) have o: "\<forall>p \<in> set (placed @ [\<lparr> placedId = i, placedCells = cells \<rparr>]).
      \<forall>q \<in> set (placed @ [\<lparr> placedId = i, placedCells = cells \<rparr>]).
        p \<noteq> q \<longrightarrow> set (placedCells p) \<inter> set (placedCells q) = {}"
    unfolding boardOk_def freeCells_def by (simp add: Int_commute)
  from d u c g o show ?thesis unfolding boardOk_def by blast
qed

lemma boardOk_replace:
  assumes "boardOk placed used" "freeCells placed cells"
  shows "boardOk (map (\<lambda>p. if placedId p = i then p \<lparr> placedCells := cells \<rparr> else p) placed) used"
proof -
  let ?f = "\<lambda>p. if placedId p = i then p \<lparr> placedCells := cells \<rparr> else p"
  have ids: "map placedId (map ?f placed) = map placedId placed"
    by (induction placed) auto
  have g: "\<forall>p \<in> set (map ?f placed). \<forall>c \<in> set (placedCells p). inGrid c"
    using assms by (auto simp: boardOk_def freeCells_def)
  have o: "\<forall>p \<in> set (map ?f placed). \<forall>q \<in> set (map ?f placed).
      p \<noteq> q \<longrightarrow> set (placedCells p) \<inter> set (placedCells q) = {}"
  proof (intro ballI impI)
    fix p q assume p: "p \<in> set (map ?f placed)" and q: "q \<in> set (map ?f placed)" and ne: "p \<noteq> q"
    from p obtain p0 where p0: "p0 \<in> set placed" "p = ?f p0" by auto
    from q obtain q0 where q0: "q0 \<in> set placed" "q = ?f q0" by auto
    from ne p0 q0 have ne0: "p0 \<noteq> q0" by auto
    from assms(1) p0 q0 have inj: "placedId p0 = placedId q0 \<longrightarrow> p0 = q0"
      by (auto simp: boardOk_def distinct_map inj_on_def)
    from assms(1) p0 q0 ne0 have dis: "set (placedCells p0) \<inter> set (placedCells q0) = {}"
      by (auto simp: boardOk_def)
    from assms(2) p0 q0 have fp: "set cells \<inter> set (placedCells p0) = {}"
      and fq: "set cells \<inter> set (placedCells q0) = {}"
      by (auto simp: freeCells_def)
    show "set (placedCells p) \<inter> set (placedCells q) = {}"
    proof (cases "placedId p0 = i")
      case True
      with inj ne0 have "placedId q0 \<noteq> i" by auto
      with True p0 q0 fq show ?thesis by simp
    next
      case False
      show ?thesis
      proof (cases "placedId q0 = i")
        case True
        with False p0 q0 fp show ?thesis by (simp add: Int_commute)
      next
        case False
        with \<open>placedId p0 \<noteq> i\<close> p0 q0 dis show ?thesis by simp
      qed
    qed
  qed
  have d: "distinct (map placedId (map ?f placed))"
    unfolding ids using assms(1) by (simp add: boardOk_def)
  have u: "set (map placedId (map ?f placed)) = used"
    unfolding ids using assms(1) by (simp add: boardOk_def)
  from assms(1) have c: "used \<subseteq> shapeId ` set shapes"
    by (simp add: boardOk_def)
  from d u c g o show ?thesis unfolding boardOk_def by blast
qed

lemma boardOk_remove:
  assumes "boardOk placed used"
  shows "boardOk (filter (\<lambda>p. placedId p \<noteq> i) placed) (used - {i})"
proof -
  let ?ps = "filter (\<lambda>p. placedId p \<noteq> i) placed"
  have ids: "set (map placedId ?ps) = set (map placedId placed) - {i}"
    by (induction placed) auto
  from assms have d: "distinct (map placedId ?ps)"
    by (simp add: boardOk_def distinct_map_filter)
  from assms ids have u: "set (map placedId ?ps) = used - {i}"
    by (simp add: boardOk_def)
  from assms have c: "used - {i} \<subseteq> shapeId ` set shapes"
    unfolding boardOk_def by blast
  from assms have g: "\<forall>p \<in> set ?ps. \<forall>c \<in> set (placedCells p). inGrid c"
    unfolding boardOk_def by auto
  from assms have o: "\<forall>p \<in> set ?ps. \<forall>q \<in> set ?ps.
      p \<noteq> q \<longrightarrow> set (placedCells p) \<inter> set (placedCells q) = {}"
    unfolding boardOk_def by auto
  from d u c g o show ?thesis unfolding boardOk_def by blast
qed

lemma hover_free:
  assumes "list_all inGrid cells"
    and "\<not> list_ex (\<lambda>c. list_ex (\<lambda>ps. list_ex (\<lambda>q. q = c) (placedCells ps)) placed) cells"
  shows "freeCells placed cells"
  using assms by (auto simp: freeCells_def list_all_iff list_ex_iff)

lemma placementOk_eqI:
  assumes "placedShapesLeft t = placedShapesLeft s" "usedShapeIds t = usedShapeIds s"
    "hoverPreview t = hoverPreview s" "draggingShape t = draggingShape s"
    "dragSource t = dragSource s"
  shows "placementOk t = placementOk s"
  by (simp add: placementOk_def assms)

lemma placementOk_clearDrag:
  "boardOk (placedShapesLeft s) (usedShapeIds s) \<Longrightarrow> placementOk (clearDrag s)"
  by (simp add: placementOk_def clearDrag_def)

lemma boardOk_removePlaced:
  "boardOk (placedShapesLeft s) (usedShapeIds s) \<Longrightarrow>
   boardOk (placedShapesLeft (removePlaced i s)) (usedShapeIds (removePlaced i s))"
  by (simp add: removePlaced_def boardOk_remove)

lemma placementOk_startDrag:
  "placementOk s \<Longrightarrow> shape \<in> set shapes \<Longrightarrow> shapeId shape \<notin> usedShapeIds s \<Longrightarrow>
   placementOk (startDrag shape s)"
  by (simp add: placementOk_def startDrag_def)

lemma placementOk_onPlacedDragStart: "placementOk s \<Longrightarrow> placementOk (onPlacedDragStart i s)"
  by (simp add: placementOk_def onPlacedDragStart_def split: option.splits)

lemma placementOk_moveDrag:
  assumes "placementOk s"
  shows "placementOk (moveDrag pt s)"
proof (cases "isConfirmed s")
  case True
  with assms show ?thesis by (simp add: moveDrag_def)
next
  case False
  from assms have b: "boardOk (placedShapesLeft s) (usedShapeIds s)"
    by (simp add: placementOk_def)
  show ?thesis
  proof (cases pt)
    case BadCoords
    have "boardOk
        (placedShapesLeft (case draggingShape s of
           Some shape \<Rightarrow>
             (if dragSource s = Some GridSource then removePlaced (shapeId shape) s else s)
         | None \<Rightarrow> s))
        (usedShapeIds (case draggingShape s of
           Some shape \<Rightarrow>
             (if dragSource s = Some GridSource then removePlaced (shapeId shape) s else s)
         | None \<Rightarrow> s))"
      using b by (simp add: boardOk_removePlaced split: option.splits)
    then show ?thesis
      using False BadCoords by (simp add: moveDrag_def placementOk_clearDrag)
  next
    case OutsideGrid
    with False assms show ?thesis by (simp add: moveDrag_def placementOk_def)
  next
    case (OverGrid row0 col0)
    show ?thesis
    proof (cases "draggingShape s")
      case None
      with False OverGrid assms show ?thesis by (simp add: moveDrag_def placementOk_def)
    next
      case (Some shape)
      with False OverGrid assms show ?thesis
        by (simp add: moveDrag_def placementOk_def Let_def hover_free)
    qed
  qed
qed

lemma boardOk_dropOnGrid:
  assumes "placementOk s" "draggingShape s = Some shape" "hoverPreview s = Some (cells, True)"
  shows "boardOk (placedShapesLeft (dropOnGrid shape cells s))
                 (usedShapeIds (dropOnGrid shape cells s))"
proof -
  from assms have b: "boardOk (placedShapesLeft s) (usedShapeIds s)"
    and f: "freeCells (placedShapesLeft s) cells"
    by (simp_all add: placementOk_def)
  show ?thesis
  proof (cases "dragSource s = Some Palette")
    case True
    with assms have "shapeId shape \<in> shapeId ` set shapes" "shapeId shape \<notin> usedShapeIds s"
      by (simp_all add: placementOk_def)
    with b f True show ?thesis
      by (simp add: dropOnGrid_def boardOk_append)
  next
    case False
    with b f show ?thesis
      by (simp add: dropOnGrid_def boardOk_replace split: option.splits)
  qed
qed

lemma placementOk_endDrag:
  assumes "placementOk s"
  shows "placementOk (endDrag wp s)"
proof -
  from assms have b: "boardOk (placedShapesLeft s) (usedShapeIds s)"
    by (simp add: placementOk_def)
  show ?thesis
  proof (cases "isConfirmed s")
    case True
    with b show ?thesis by (simp add: endDrag_def placementOk_clearDrag)
  next
    case False
    show ?thesis
    proof (cases "draggingShape s")
      case None
      with False b show ?thesis by (simp add: endDrag_def placementOk_clearDrag)
    next
      case (Some shape)
      show ?thesis
      proof (cases "\<exists>cells. hoverPreview s = Some (cells, True)")
        case True
        then obtain cells where h: "hoverPreview s = Some (cells, True)" ..
        from boardOk_dropOnGrid [OF assms Some h] False Some h show ?thesis
          by (simp add: endDrag_def placementOk_clearDrag)
      next
        case nohover: False
        let ?t = "if wp \<and> dragSource s = Some GridSource then removePlaced (shapeId shape) s else s"
        from b have "boardOk (placedShapesLeft ?t) (usedShapeIds ?t)"
          by (simp add: boardOk_removePlaced)
        then have "placementOk (clearDrag ?t)" by (rule placementOk_clearDrag)
        moreover from nohover False Some have "endDrag wp s = clearDrag ?t"
          by (auto simp: endDrag_def split: option.splits bool.splits)
        ultimately show ?thesis by simp
      qed
    qed
  qed
qed

lemma placementOk_initial: "placementOk (initialScreen gid opp)"
  by (simp add: placementOk_def initialScreen_def boardOk_def)

lemma reachable_placementOk: "reachable s \<Longrightarrow> placementOk s"
proof (induction rule: reachable.induct)
  case (mounted gid opp)
  show ?case by (rule placementOk_initial)
next
  case (signedIn s tok uid)
  then show ?case by (simp add: placementOk_def)
next
  case (identity s dec toks)
  then show ?case by (simp add: placementOk_def identityEffect_def Let_def)
next
  case (update s p)
  have "placementOk (applyGameStateUpdate p s) = placementOk s"
    by (rule placementOk_eqI) (simp_all add: apply_unchanged)
  with update show ?case by simp
next
  case (fire s r c)
  then show ?case by (simp add: placementOk_def fireStart_def)
next
  case (fired s cap r c outcome)
  then show ?case by (simp add: placementOk_def fireFinish_def Let_def split: FireOutcome.splits)
next
  case (pending s)
  then show ?case by (simp add: placementOk_def pendingAttackEffect_def split: option.splits)
next
  case (palette s shape)
  then show ?case by (simp add: placementOk_startDrag)
next
  case (lifted s i)
  then show ?case by (simp add: placementOk_onPlacedDragStart)
next
  case (moved s pt)
  then show ?case by (simp add: placementOk_moveDrag)
next
  case (dropped s wp)
  then show ?case by (simp add: placementOk_endDrag)
next
  case (confirm s token)
  have "placementOk (fst (pressConfirm token s)) = placementOk s"
    by (rule placementOk_eqI)
       (simp_all add: pressConfirm_def handleConfirmBoard_def split: option.splits sum.splits)
  with confirm show ?case by simp
next
  case (confirmed s outcome)
  have "placementOk (confirmSettled outcome s) = placementOk s"
    by (rule placementOk_eqI)
       (simp_all add: confirmSettled_def apply_unchanged split: ConfirmOutcome.splits)
  with confirmed show ?case by simp
qed

lemma catalog_ids: "card (shapeId ` set shapes) = 5"
  by (simp add: shapes_def)

lemma complete_board:
  assumes "boardOk placed used" "card used = length shapes"
  shows "used = shapeId ` set shapes"
proof -
  have "length shapes = 5" by (simp add: shapes_def)
  with assms catalog_ids have "card used = card (shapeId ` set shapes)" by simp
  moreover from assms have "used \<subseteq> shapeId ` set shapes" by (simp add: boardOk_def)
  ultimately show ?thesis by (simp add: card_subset_eq)
qed

text \<open>
  C7. In every state the screen can reach, pressing "Confirm Ships" issues the
  submit-board request only when the placed shapes carry exactly the five catalog ids,
  each once, every placed cell is on the grid and no two placed shapes share a cell; with
  four shapes used the press issues no request.
\<close>

theorem board_submitted_only_when_complete:
  assumes "reachable s"
  shows "(snd (pressConfirm token s) \<noteq> None \<longrightarrow>
            distinct (map placedId (placedShapesLeft s)) \<and>
            set (map placedId (placedShapesLeft s)) = shapeId ` set shapes \<and>
            length (placedShapesLeft s) = 5 \<and>
            (\<forall>p \<in> set (placedShapesLeft s). \<forall>c \<in> set (placedCells p). inGrid c) \<and>
            (\<forall>p \<in> set (placedShapesLeft s). \<forall>q \<in> set (placedShapesLeft s).
                p \<noteq> q \<longrightarrow> set (placedCells p) \<inter> set (placedCells q) = {}))
         \<and> (card (usedShapeIds s) = 4 \<longrightarrow> snd (pressConfirm token s) = None)"
proof -
  from assms have ok: "boardOk (placedShapesLeft s) (usedShapeIds s)"
    using reachable_placementOk by (simp add: placementOk_def)
  have a: "snd (pressConfirm token s) \<noteq> None \<longrightarrow>
            distinct (map placedId (placedShapesLeft s)) \<and>
            set (map placedId (placedShapesLeft s)) = shapeId ` set shapes \<and>
            length (placedShapesLeft s) = 5 \<and>
            (\<forall>p \<in> set (placedShapesLeft s). \<forall>c \<in> set (placedCells p). inGrid c) \<and>
            (\<forall>p \<in> set (placedShapesLeft s). \<forall>q \<in> set (placedShapesLeft s).
                p \<noteq> q \<longrightarrow> set (placedCells p) \<inter> set (placedCells q) = {})"
  proof
    assume "snd (pressConfirm token s) \<noteq> None"
    then have "card (usedShapeIds s) = length shapes"
      by (simp add: pressConfirm_def confirmButtonShown_def split: if_splits)
    with ok have full: "usedShapeIds s = shapeId ` set shapes"
      by (rule complete_board)
    from ok have d: "distinct (map placedId (placedShapesLeft s))"
      and u: "set (map placedId (placedShapesLeft s)) = usedShapeIds s"
      by (simp_all add: boardOk_def)
    from distinct_card [OF d] u have "card (usedShapeIds s) = length (placedShapesLeft s)"
      by simp
    with full catalog_ids have n: "length (placedShapesLeft s) = 5" by simp
    from ok d u full n show "distinct (map placedId (placedShapesLeft s)) \<and>
            set (map placedId (placedShapesLeft s)) = shapeId ` set shapes \<and>
            length (placedShapesLeft s) = 5 \<and>
            (\<forall>p \<in> set (placedShapesLeft s). \<forall>c \<in> set (placedCells p). inGrid c) \<and>
            (\<forall>p \<in> set (placedShapesLeft s). \<forall>q \<in> set (placedShapesLeft s).
                p \<noteq> q \<longrightarrow> set (placedCells p) \<inter> set (placedCells q) = {})"
      unfolding boardOk_def by blast
  qed
  have b: "card (usedShapeIds s) = 4 \<longrightarrow> snd (pressConfirm token s) = None"
    by (simp add: pressConfirm_def confirmButtonShown_def shapes_def)
  from a b show ?thesis by blast
qed

lemma reachable_placeShape:
  "reachable s \<Longrightarrow> \<not> isConfirmed s \<Longrightarrow> shape \<in> set shapes \<Longrightarrow>
   shapeId shape \<notin> usedShapeIds s \<Longrightarrow> reachable (placeShape shape row0 col0 s)"
  unfolding placeShape_def
  by (intro reachable.dropped reachable.moved reachable.palette)

lemma reachable_signedIn: "reachable signedIn"
  unfolding signedIn_def by (rule reachable.signedIn) (rule reachable.mounted)

lemma fourPlaced_value:
  "fourPlaced = signedIn
     \<lparr> placedShapesLeft :=
         [ \<lparr> placedId = ''s-3x1'', placedCells = [(0, 0), (0, 1), (0, 2)] \<rparr>,
           \<lparr> placedId = ''s-2x1'', placedCells = [(1, 0), (1, 1)] \<rparr>,
           \<lparr> placedId = ''s-2x2'', placedCells = [(2, 0), (2, 1), (3, 0), (3, 1)] \<rparr>,
           \<lparr> placedId = ''s-4x1'', placedCells = [(4, 0), (4, 1), (4, 2), (4, 3)] \<rparr> ],
       usedShapeIds := {''s-4x1'', ''s-2x2'', ''s-2x1'', ''s-3x1''} \<rparr>"
  by (simp add: fourPlaced_def placing_defs signedIn_def initialScreen_def)

lemma fullBoard_value:
  "fullBoard = signedIn
     \<lparr> placedShapesLeft :=
         [ \<lparr> placedId = ''s-3x1'', placedCells = [(0, 0), (0, 1), (0, 2)] \<rparr>,
           \<lparr> placedId = ''s-2x1'', placedCells = [(1, 0), (1, 1)] \<rparr>,
           \<lparr> placedId = ''s-2x2'', placedCells = [(2, 0), (2, 1), (3, 0), (3, 1)] \<rparr>,
           \<lparr> placedId = ''s-4x1'', placedCells = [(4, 0), (4, 1), (4, 2), (4, 3)] \<rparr>,
           \<lparr> placedId = ''s-u'', placedCells = [(5, 0), (5, 1), (6, 0), (7, 0), (7, 1)] \<rparr> ],
       usedShapeIds := {''s-u'', ''s-4x1'', ''s-2x2'', ''s-2x1'', ''s-3x1''} \<rparr>"
  by (simp add: fullBoard_def fourPlaced_value) (simp add: placing_defs signedIn_def initialScreen_def)

lemma reachable_fourPlaced: "reachable fourPlaced"
  unfolding fourPlaced_def
  apply (rule reachable_placeShape)
     apply (rule reachable_placeShape)
        apply (rule reachable_placeShape)
           apply (rule reachable_placeShape)
              apply (rule reachable_signedIn)
             apply (simp_all add: placing_defs signedIn_def initialScreen_def)
  done

lemma reachable_fullBoard: "reachable fullBoard"
  unfolding fullBoard_def
  by (rule reachable_placeShape [OF reachable_fourPlaced])
     (simp_all add: fourPlaced_value signedIn_def initialScreen_def shapes_def)

lemma screen_matrix_built: "\<exists>b. buildBoardMatrix (map asRender ps) = Inr b"
  using writeShapes_ok [OF boardOver_empty subset_refl integerRows_asRender, of ps]
  by (auto simp: buildBoardMatrix_def)

lemma handleConfirmBoard_issues:
  assumes "\<not> isConfirmed s" "\<not> isSubmittingBoard s" "placedShapesLeft s \<noteq> []"
    "displayGameId s \<noteq> []" "displayGameId s \<noteq> ''pending''" "t \<noteq> []"
  shows "snd (handleConfirmBoard (Some t) s) \<noteq> None"
proof -
  from screen_matrix_built obtain b
    where "buildBoardMatrix (map asRender (placedShapesLeft s)) = Inr b" ..
  with assms show ?thesis by (simp add: handleConfirmBoard_def)
qed

lemma fourPlaced_would_submit:
  "card (usedShapeIds fourPlaced) = 4 \<and> \<not> confirmButtonShown fourPlaced
   \<and> snd (handleConfirmBoard (Some ''token-1'') fourPlaced) \<noteq> None"
proof -
  have "snd (handleConfirmBoard (Some ''token-1'') fourPlaced) \<noteq> None"
    by (rule handleConfirmBoard_issues)
       (simp_all add: fourPlaced_value signedIn_def initialScreen_def)
  then show ?thesis
    by (simp add: fourPlaced_value confirmButtonShown_def signedIn_def initialScreen_def
          shapes_def)
qed

text \<open>
  C7 at the board with all five shapes placed, whose confirmation issues the request, and
  at the board with four of them, whose confirmation issues none.
\<close>

theorem board_submitted_only_when_complete_witness:
  "reachable fullBoard
   \<and> snd (pressConfirm (Some ''token-1'') fullBoard) \<noteq> None
   \<and> length (placedShapesLeft fullBoard) = 5
   \<and> set (map placedId (placedShapesLeft fullBoard)) = shapeId ` set shapes
   \<and> reachable fourPlaced
   \<and> card (usedShapeIds fourPlaced) = 4
   \<and> snd (pressConfirm (Some ''token-1'') fourPlaced) = None"
proof -
  have "snd (handleConfirmBoard (Some ''token-1'') fullBoard) \<noteq> None"
    by (rule handleConfirmBoard_issues)
       (simp_all add: fullBoard_value signedIn_def initialScreen_def)
  then have h: "snd (pressConfirm (Some ''token-1'') fullBoard) \<noteq> None"
    by (simp add: fullBoard_value pressConfirm_def confirmButtonShown_def signedIn_def
          initialScreen_def shapes_def)
  have k: "card (usedShapeIds fourPlaced) = 4"
    by (simp add: fourPlaced_value)
  note full = board_submitted_only_when_complete [OF reachable_fullBoard, of "Some ''token-1''"]
  note four = board_submitted_only_when_complete [OF reachable_fourPlaced, of "Some ''token-1''"]
  from full h have a: "length (placedShapesLeft fullBoard) = 5"
    by simp
  from full h have b: "set (map placedId (placedShapesLeft fullBoard)) = shapeId ` set shapes"
    by simp
  from four k have c: "snd (pressConfirm (Some ''token-1'') fourPlaced) = None"
    by simp
  from a b c h k reachable_fullBoard reachable_fourPlaced show ?thesis
    by simp
qed

end
